theory Spec2Isabelle
  imports Complex_Main "HOL-Library.Multiset" "HOL-Library.Sublist"
begin


section \<open>Python strings\<close>

text \<open>
  Strings are \<open>char list\<close>, a character being one of the 256 code points of Latin-1;
  text with other characters is outside the model. \<open>upper\<close>, \<open>lower\<close> and \<open>strip\<close>
  are Python's \<open>str.upper\<close>, \<open>str.lower\<close> and \<open>str.strip\<close> on ASCII text (\<open>ascii\<close>
  below): beyond ASCII Python also changes the case of other letters and strips other
  blanks, which these functions leave alone, so a theorem that says what they return is
  stated for ASCII text. The test \<open>.upper().endswith("INR")\<close> is the same on all text of
  the model, because no character of Latin-1 beyond ASCII has a letter of \<open>INR\<close> in its
  upper case; and the regular expression of \<open>clean_name\<close> names ASCII classes only, so
  it is exact on all text.
\<close>

definition ascii :: "string \<Rightarrow> bool" where
  "ascii s = list_all (\<lambda>c. (of_char c :: nat) < 128) s"

definition is_digit :: "char \<Rightarrow> bool" where
  "is_digit c = (let n = (of_char c :: nat) in 48 \<le> n \<and> n \<le> 57)"

definition is_lower :: "char \<Rightarrow> bool" where
  "is_lower c = (let n = (of_char c :: nat) in 97 \<le> n \<and> n \<le> 122)"

definition is_upper :: "char \<Rightarrow> bool" where
  "is_upper c = (let n = (of_char c :: nat) in 65 \<le> n \<and> n \<le> 90)"

definition is_alnum :: "char \<Rightarrow> bool" where
  \<comment> \<open>the class \<open>[0-9a-zA-Z]\<close>\<close>
  "is_alnum c = (is_digit c \<or> is_lower c \<or> is_upper c)"

definition is_space :: "char \<Rightarrow> bool" where
  \<comment> \<open>the ASCII characters \<open>str.strip()\<close> removes: TAB, LF, VT, FF, CR, FS, GS, RS, US, space\<close>
  "is_space c = (let n = (of_char c :: nat) in (9 \<le> n \<and> n \<le> 13) \<or> (28 \<le> n \<and> n \<le> 32))"

definition upper_char :: "char \<Rightarrow> char" where
  \<comment> \<open>a lower-case ASCII letter loses bit 5, that is 32\<close>
  "upper_char c =
     (if is_lower c
      then (case c of Char b0 b1 b2 b3 b4 b5 b6 b7 \<Rightarrow> Char b0 b1 b2 b3 b4 False b6 b7)
      else c)"

definition lower_char :: "char \<Rightarrow> char" where
  \<comment> \<open>an upper-case ASCII letter gains bit 5, that is 32\<close>
  "lower_char c =
     (if is_upper c
      then (case c of Char b0 b1 b2 b3 b4 b5 b6 b7 \<Rightarrow> Char b0 b1 b2 b3 b4 True b6 b7)
      else c)"

definition upper :: "string \<Rightarrow> string" where
  "upper s = map upper_char s"

definition lower :: "string \<Rightarrow> string" where
  "lower s = map lower_char s"

definition strip_chars :: "(char \<Rightarrow> bool) \<Rightarrow> string \<Rightarrow> string" where
  \<comment> \<open>\<open>s.strip(chars)\<close>: drop the characters of the class at both ends\<close>
  "strip_chars p s = rev (dropWhile p (rev (dropWhile p s)))"

definition strip :: "string \<Rightarrow> string" where
  "strip s = strip_chars is_space s"

definition endswith :: "string \<Rightarrow> string \<Rightarrow> bool" where
  \<comment> \<open>\<open>s.endswith(q)\<close>\<close>
  "endswith s q = (length q \<le> length s \<and> drop (length s - length q) s = q)"

fun split_on :: "char \<Rightarrow> string \<Rightarrow> string list" where
  \<comment> \<open>\<open>s.split(sep)\<close> for a separator of one character\<close>
  "split_on sep [] = [[]]"
| "split_on sep (c # cs) =
     (if c = sep then [] # split_on sep cs
      else (case split_on sep cs of
              [] \<Rightarrow> [[c]]
            | w # ws \<Rightarrow> (c # w) # ws))"

definition last_chars :: "nat \<Rightarrow> string \<Rightarrow> string" where
  \<comment> \<open>\<open>s[-n:]\<close> for \<open>n > 0\<close>: the whole string when it is shorter than \<open>n\<close>\<close>
  "last_chars n s = drop (length s - n) s"

section \<open>Helper functions of the application\<close>

fun sub_runs :: "bool \<Rightarrow> string \<Rightarrow> string" where
  \<comment> \<open>the scan of \<open>re.sub(r'[^0-9a-zA-Z]+', '_', s)\<close>; the flag says that the scan is inside
    a run of characters outside the class, whose \<open>_\<close> is already written\<close>
  "sub_runs in_run [] = []"
| "sub_runs in_run (c # cs) =
     (if is_alnum c then c # sub_runs False cs
      else if in_run then sub_runs True cs
      else CHR ''_'' # sub_runs True cs)"

definition sub_non_alnum :: "string \<Rightarrow> string" where
  \<comment> \<open>every maximal run of characters outside \<open>[0-9a-zA-Z]\<close> becomes one \<open>_\<close>\<close>
  "sub_non_alnum s = sub_runs False s"

definition clean_name :: "string \<Rightarrow> string" where
  "clean_name s = lower (strip_chars (\<lambda>c. c = CHR ''_'') (sub_non_alnum s))"

datatype patterns = Single string | Several "string list"

fun find_in_cols :: "string list \<Rightarrow> string \<Rightarrow> string option" where
  \<comment> \<open>the inner loop of \<open>find_col\<close>: the first column whose clean name is the pattern's\<close>
  "find_in_cols [] pat_clean = None"
| "find_in_cols (c # cs) pat_clean =
     (if clean_name c = pat_clean then Some c else find_in_cols cs pat_clean)"

fun find_pats :: "string list \<Rightarrow> string list \<Rightarrow> string option" where
  \<comment> \<open>the outer loop of \<open>find_col\<close>, over the patterns in their order\<close>
  "find_pats orig_cols [] = None"
| "find_pats orig_cols (pat # pats) =
     (case find_in_cols orig_cols (clean_name pat) of
        Some c \<Rightarrow> Some c
      | None \<Rightarrow> find_pats orig_cols pats)"

fun find_col :: "string list \<Rightarrow> patterns \<Rightarrow> string option" where
  "find_col orig_cols (Single pat) = find_pats orig_cols [pat]"
| "find_col orig_cols (Several pats) = find_pats orig_cols pats"


section \<open>Cells, the library and data frames\<close>

text \<open>
  A cell of the sheet as \<open>pd.read_excel\<close> delivers it: text, a number, a date-time or
  nothing (pandas' NaN and NaT are the one value \<open>Missing\<close>). A number is the rational
  that an \<open>int64\<close> or a \<open>float64\<close> holds. Date-times are integer instants.

  A row maps column names to cells, and a data frame is its column names in order with
  its rows in order, and the names of its columns of type \<open>float64\<close>: in such a column
  every number is a \<open>float64\<close>, in any other column a whole number in the range of
  \<open>int64\<close> is an integer (a whole number that a workbook holds in exponent notation is
  read as a \<open>float64\<close>; in a column of another type it is outside the model). The types
  matter for the products only; the types of the frame that is handed out are not
  modelled, a workbook does not keep them. In a frame of pandas
  every row has every column of the frame. \<open>cell_at\<close> reads a cell the way \<open>pd.concat\<close>
  fills a column that a row lacks. Column names are text, on which \<open>str\<close> is the identity;
  a header cell that is not text is outside the model.
\<close>

datatype cell = Text string | Number rat | Stamp int | Missing

type_synonym row = "string \<Rightarrow> cell option"

record dataframe =
  columns :: "string list"
  rows :: "row list"
  float64 :: "string list"

text \<open>
  A value of a numeric series: an \<open>int64\<close> or a \<open>float64\<close> that is not NaN.
\<close>

datatype numeric = Int64 int | Float64 rat

text \<open>
  What pandas does with the cells whose treatment the application leaves to it is a
  parameter of the model:
  \<^item> \<open>str_of\<close>: \<open>str(x)\<close> of a cell that is not text;
  \<^item> \<open>numeric_of\<close>: \<open>pd.to_numeric(errors="coerce")\<close> on a cell that is neither a number nor
    missing; \<open>None\<close> is NaN;
  \<^item> \<open>float_of_int\<close>: the \<open>float64\<close> nearest to an integer beyond \<open>2 ^ 53\<close> in magnitude;
  \<^item> \<open>float_mul\<close>: the cell of the \<open>float64\<close> product of two \<open>float64\<close>s, when their
    exact product is not a whole number up to \<open>2 ^ 53\<close> in magnitude;
  \<^item> \<open>to_datetime\<close>: \<open>pd.to_datetime(column, errors="coerce")\<close> on a whole column (pandas
    infers the format from the column); the inner \<open>None\<close> is NaT, the outer \<open>None\<close> is
    an exception;
  \<^item> \<open>to_excel\<close>: whether \<open>frame.to_excel(buffer)\<close> returns; it raises, for instance, on a
    frame that holds a date-time with a time zone.
\<close>

record pandas =
  str_of :: "cell \<Rightarrow> string"
  numeric_of :: "cell \<Rightarrow> numeric option"
  float_of_int :: "int \<Rightarrow> rat"
  float_mul :: "rat \<Rightarrow> rat \<Rightarrow> cell"
  to_datetime :: "cell list \<Rightarrow> int option list option"
  to_excel :: "dataframe \<Rightarrow> bool"

definition py_str :: "pandas \<Rightarrow> cell \<Rightarrow> string" where
  \<comment> \<open>\<open>str(x)\<close> and \<open>.astype(str)\<close>: text is itself\<close>
  "py_str lib c = (case c of Text s \<Rightarrow> s | _ \<Rightarrow> str_of lib c)"

definition cell_at :: "row \<Rightarrow> string \<Rightarrow> cell" where
  "cell_at r c = (case r c of Some v \<Rightarrow> v | None \<Rightarrow> Missing)"

definition assign :: "string \<Rightarrow> (row \<Rightarrow> cell) \<Rightarrow> row list \<Rightarrow> row list" where
  \<comment> \<open>\<open>frame[c] = expression\<close>, the expression computed row by row from the frame before\<close>
  "assign c f rs = map (\<lambda>r. r(c \<mapsto> f r)) rs"

definition drop_column :: "string \<Rightarrow> row list \<Rightarrow> row list" where
  \<comment> \<open>\<open>frame.drop(columns=[c], errors="ignore")\<close>\<close>
  "drop_column c rs = map (\<lambda>r. r(c := None)) rs"

definition reindex :: "string list \<Rightarrow> row \<Rightarrow> row" where
  \<comment> \<open>a row laid out on the columns \<open>cols\<close>, a column it lacks filled with NaN\<close>
  "reindex cols r = (\<lambda>c. if c \<in> set cols then Some (cell_at r c) else None)"

definition concat_frames :: "dataframe \<Rightarrow> row list \<Rightarrow> dataframe" where
  \<comment> \<open>\<open>pd.concat([df, mirrored], ignore_index=True, sort=False)\<close>; the columns of
    \<open>mirrored\<close> are among those of \<open>df\<close>, so the result has the columns of \<open>df\<close>\<close>
  "concat_frames df mirrored =
     \<lparr>columns = columns df, rows = map (reindex (columns df)) (rows df @ mirrored),
      float64 = float64 df\<rparr>"

section \<open>Numeric series and their product\<close>

text \<open>
  \<open>pd.to_numeric(series, errors="coerce")\<close> gives a series of \<open>int64\<close> or of \<open>float64\<close>,
  and the product of two series is taken in \<open>int64\<close>, where it wraps around, when both
  are \<open>int64\<close>, and in \<open>float64\<close>, where it is rounded, otherwise. A series taken from
  a column of type \<open>float64\<close> stays so; a series from any other column is converted cell
  by cell, to \<open>int64\<close> if every cell of the series gives an integer and to \<open>float64\<close> if
  not. A \<open>float64\<close> holds every whole number up to \<open>2 ^ 53\<close> in magnitude, and its
  arithmetic is exact when the exact result is such a number. \<open>pd.read_excel\<close> types a
  column \<open>float64\<close> when it holds numbers and blanks only, and not whole numbers only.
\<close>

definition is_whole :: "rat \<Rightarrow> bool" where
  "is_whole r = (of_int \<lfloor>r\<rfloor> = r)"

definition in_int64 :: "int \<Rightarrow> bool" where
  "in_int64 n = (- 9223372036854775808 \<le> n \<and> n < 9223372036854775808)"

definition wrap64 :: "int \<Rightarrow> int" where
  \<comment> \<open>the \<open>int64\<close> that an integer wraps around to\<close>
  "wrap64 n = (n + 9223372036854775808) mod 18446744073709551616 - 9223372036854775808"

definition exact_float :: "rat \<Rightarrow> bool" where
  \<comment> \<open>a whole number up to \<open>2 ^ 53\<close> in magnitude\<close>
  "exact_float r = (is_whole r \<and> \<bar>r\<bar> \<le> 9007199254740992)"

definition whole_cell :: "cell \<Rightarrow> bool" where
  "whole_cell c = (case c of Number r \<Rightarrow> is_whole r \<and> in_int64 \<lfloor>r\<rfloor> | _ \<Rightarrow> False)"

definition float_column :: "cell list \<Rightarrow> bool" where
  \<comment> \<open>the cells of a column that \<open>pd.read_excel\<close> types \<open>float64\<close>\<close>
  "float_column cs =
     (list_all (\<lambda>c. case c of Number r \<Rightarrow> True | Missing \<Rightarrow> True | _ \<Rightarrow> False) cs
      \<and> \<not> list_all whole_cell cs)"

definition to_numeric :: "pandas \<Rightarrow> cell \<Rightarrow> numeric option" where
  \<comment> \<open>\<open>pd.to_numeric(..., errors="coerce")\<close> on one cell of a column that is not
    \<open>float64\<close>: it raises nothing\<close>
  "to_numeric lib c =
     (case c of
        Number r \<Rightarrow> Some (if is_whole r \<and> in_int64 \<lfloor>r\<rfloor> then Int64 \<lfloor>r\<rfloor> else Float64 r)
      | Missing \<Rightarrow> None
      | _ \<Rightarrow> numeric_of lib c)"

definition is_int :: "numeric option \<Rightarrow> bool" where
  "is_int v = (case v of Some (Int64 n) \<Rightarrow> True | _ \<Rightarrow> False)"

text \<open>
  A series is given by whether its column is of type \<open>float64\<close>, and by its cells.
\<close>

definition int_series :: "pandas \<Rightarrow> bool \<times> cell list \<Rightarrow> bool" where
  \<comment> \<open>\<open>pd.to_numeric\<close> gives a series of \<open>int64\<close>\<close>
  "int_series lib s = (\<not> fst s \<and> list_all (\<lambda>c. is_int (to_numeric lib c)) (snd s))"

definition as_float :: "pandas \<Rightarrow> bool \<times> cell list \<Rightarrow> cell \<Rightarrow> rat option" where
  \<comment> \<open>a cell of the series as a \<open>float64\<close>, NaN being \<open>None\<close>\<close>
  "as_float lib s c =
     (if fst s then (case c of Number r \<Rightarrow> Some r | _ \<Rightarrow> None)
      else (case to_numeric lib c of
              Some (Int64 n) \<Rightarrow>
                Some (if \<bar>n\<bar> \<le> 9007199254740992 then of_int n else float_of_int lib n)
            | Some (Float64 r) \<Rightarrow> Some r
            | None \<Rightarrow> None))"

definition multiply :: "pandas \<Rightarrow> bool \<times> cell list \<Rightarrow> bool \<times> cell list \<Rightarrow> cell \<Rightarrow> cell \<Rightarrow> cell" where
  \<comment> \<open>\<open>pd.to_numeric(a, errors="coerce") * pd.to_numeric(b, errors="coerce")\<close>, read for one
    row: \<open>x\<close> is the cell of the series \<open>a\<close> in that row and \<open>y\<close> the one of \<open>b\<close>\<close>
  "multiply lib a b x y =
     (if int_series lib a \<and> int_series lib b
      then (case (to_numeric lib x, to_numeric lib y) of
              (Some (Int64 m), Some (Int64 n)) \<Rightarrow> Number (of_int (wrap64 (m * n)))
            | _ \<Rightarrow> Missing)
      else (case (as_float lib a x, as_float lib b y) of
              (Some v, Some w) \<Rightarrow> if exact_float (v * w) then Number (v * w) else float_mul lib v w
            | _ \<Rightarrow> Missing))"

section \<open>Quote extraction\<close>

definition common_quotes :: "string list" where
  "common_quotes = [''USDT'', ''BUSD'', ''USD'', ''ETH'', ''BTC'', ''INR'']"

fun first_suffix :: "string \<Rightarrow> string list \<Rightarrow> string option" where
  \<comment> \<open>the loop over \<open>common_quotes\<close>: the first one that \<open>s\<close> ends with\<close>
  "first_suffix s [] = None"
| "first_suffix s (q # qs) = (if endswith s q then Some q else first_suffix s qs)"

definition extract_quote :: "pandas \<Rightarrow> cell \<Rightarrow> string" where
  "extract_quote lib market_str =
     (let s = strip (upper (py_str lib market_str)) in
      if CHR ''-'' \<in> set s then last (split_on (CHR ''-'') s)
      else (case first_suffix s common_quotes of
              Some q \<Rightarrow> q
            | None \<Rightarrow> last_chars 3 s))"

section \<open>Column detection and validation\<close>

datatype role = Market | Date | Trade_type | Quantity | Price | Total | Usd_inr

fun role_name :: "role \<Rightarrow> string" where
  "role_name Market = ''market''"
| "role_name Date = ''date''"
| "role_name Trade_type = ''trade_type''"
| "role_name Quantity = ''quantity''"
| "role_name Price = ''price''"
| "role_name Total = ''total''"
| "role_name Usd_inr = ''usd_inr''"

fun candidates :: "role \<Rightarrow> string list" where
  "candidates Market = [''market'', ''pair'', ''market_2'']"
| "candidates Date = [''date'', ''trade date'', ''trade_date'']"
| "candidates Trade_type = [''trade type'', ''trade_type'', ''side'', ''action'']"
| "candidates Quantity = [''quantity'', ''qty'', ''totalvolume'', ''total_volume'']"
| "candidates Price = [''price'', ''final price'', ''rate'', ''actualrate'']"
| "candidates Total = [''total'', ''amount'', ''total_inr'', ''gross_amount'']"
| "candidates Usd_inr = [''usd_inr_rate'', ''usd_inr'', ''usd-inr'', ''usd inr'']"

definition col :: "string list \<Rightarrow> role \<Rightarrow> string option" where
  \<comment> \<open>the dictionary \<open>col\<close>: each role with the column detected for it, or \<open>None\<close>\<close>
  "col orig_cols r = find_col orig_cols (Several (candidates r))"

definition required :: "role list" where
  "required = [Market, Date, Trade_type, Quantity, Price, Total]"

definition missing :: "string list \<Rightarrow> role list" where
  "missing orig_cols = filter (\<lambda>r. col orig_cols r = None) required"

fun join :: "string \<Rightarrow> string list \<Rightarrow> string" where
  \<comment> \<open>\<open>sep.join(names)\<close>\<close>
  "join sep [] = []"
| "join sep [x] = x"
| "join sep (x # y # ys) = x @ sep @ join sep (y # ys)"

section \<open>The mirroring of the trades\<close>

text \<open>
  What the application tells its user while it processes: the \<open>st.info\<close> of the early exit,
  the \<open>st.warning\<close> of the handler around the conversion ("Could not compute exact INR
  Price/Total because of non-numeric values. Mirrored Price/Total may contain NaNs."), the
  \<open>st.warning\<close> for a sheet with no rate column, and the final \<open>st.success\<close>.

  A run ends in one of three ways: it stops at the validation with the names of the
  required roles that have no column; the \<open>try\<close> block that processes the sheet raises, and
  its handler reports that "An error occurred while processing the file", after the
  messages already shown, and hands nothing out; or the run hands out a frame.
\<close>

datatype message =
    Info_nothing_to_mirror
  | Warning_not_numeric
  | Warning_no_rate
  | Success_complete

datatype error = MissingRequiredColumns "string list" | ProcessingFailed "message list"

definition error_text :: "error \<Rightarrow> string" where
  \<comment> \<open>the text of \<open>st.error\<close>, after its leading symbol\<close>
  "error_text e =
     (case e of
        MissingRequiredColumns names \<Rightarrow> ''Required column(s) missing: '' @ join '', '' names
      | ProcessingFailed shown \<Rightarrow> ''An error occurred while processing the file.'')"

definition is_inr :: "pandas \<Rightarrow> string \<Rightarrow> row \<Rightarrow> bool" where
  \<comment> \<open>\<open>df[mkt_col].astype(str).str.upper().str.endswith("INR")\<close>, for one row\<close>
  "is_inr lib mkt_col r = endswith (upper (py_str lib (cell_at r mkt_col))) ''INR''"

definition df_non_inr :: "pandas \<Rightarrow> string \<Rightarrow> dataframe \<Rightarrow> row list" where
  "df_non_inr lib mkt_col df = filter (\<lambda>r. \<not> is_inr lib mkt_col r) (rows df)"

definition add_text :: "cell \<Rightarrow> string \<Rightarrow> cell" where
  \<comment> \<open>\<open>series + "INR"\<close> on one cell; NaN stays NaN\<close>
  "add_text c s = (case c of Text q \<Rightarrow> Text (q @ s) | _ \<Rightarrow> Missing)"

definition flip :: "string \<Rightarrow> string" where
  "flip x = (if x = ''SELL'' then ''BUY'' else if x = ''BUY'' then ''SELL'' else x)"

definition prepare_mirrored :: "pandas \<Rightarrow> string \<Rightarrow> string \<Rightarrow> string \<Rightarrow> row list \<Rightarrow> row list" where
  \<comment> \<open>the quote column, the new market, the flipped trade type, the quantity kept\<close>
  "prepare_mirrored lib mkt_col tt_col qty_col non_inr =
     (let m1 = assign ''__quote__'' (\<lambda>r. Text (extract_quote lib (cell_at r mkt_col))) non_inr;
          m2 = assign mkt_col (\<lambda>r. add_text (cell_at r ''__quote__'') ''INR'') m1;
          m3 = assign tt_col (\<lambda>r. Text (flip (upper (py_str lib (cell_at r tt_col))))) m2;
          m4 = assign qty_col (\<lambda>r. cell_at r qty_col) m3
      in m4)"

definition series :: "string list \<Rightarrow> row list \<Rightarrow> string \<Rightarrow> bool \<times> cell list" where
  \<comment> \<open>the column \<open>c\<close> of a frame copied from rows of the sheet, whose types it keeps\<close>
  "series floats frame c = (c \<in> set floats, map (\<lambda>r. cell_at r c) frame)"

definition convert ::
  "pandas \<Rightarrow> string list \<Rightarrow> string \<Rightarrow> string \<Rightarrow> string option \<Rightarrow> row list
     \<Rightarrow> row list \<times> message list" where
  \<comment> \<open>\<open>if usd_col: try: ... except Exception: ... else: ...\<close>. A detected column has a name
    that is not empty (\<open>col_not_empty\<close> below), so the truth test of \<open>usd_col\<close> is the test
    for \<open>None\<close>. Neither \<open>pd.to_numeric\<close> under \<open>errors="coerce"\<close> nor the product of two
    numeric series raises, so the handler with \<open>Warning_not_numeric\<close> is never entered.\<close>
  "convert lib floats price_col total_col usd_col mirrored =
     (case usd_col of
        Some u \<Rightarrow>
          (let m1 = assign price_col
                      (\<lambda>r. multiply lib (series floats mirrored price_col) (series floats mirrored u)
                             (cell_at r price_col) (cell_at r u)) mirrored;
               m2 = assign total_col
                      (\<lambda>r. multiply lib (series floats m1 total_col) (series floats m1 u)
                             (cell_at r total_col) (cell_at r u)) m1;
               m3 = assign u (\<lambda>r. Number 1) m2
           in (m3, []))
      | None \<Rightarrow> (mirrored, [Warning_no_rate]))"

definition mirrored :: "pandas \<Rightarrow> (role \<Rightarrow> string option) \<Rightarrow> dataframe \<Rightarrow> row list" where
  \<comment> \<open>the frame \<open>mirrored\<close> when it is handed to \<open>pd.concat\<close>\<close>
  "mirrored lib c df =
     drop_column ''__quote__''
       (fst (convert lib (float64 df) (the (c Price)) (the (c Total)) (c Usd_inr)
          (prepare_mirrored lib (the (c Market)) (the (c Trade_type)) (the (c Quantity))
             (df_non_inr lib (the (c Market)) df))))"

definition stamp_cell :: "int option \<Rightarrow> cell" where
  "stamp_cell k = (case k of Some t \<Rightarrow> Stamp t | None \<Rightarrow> Missing)"

definition date_key :: "string \<Rightarrow> row \<Rightarrow> int option" where
  "date_key date_col r = (case cell_at r date_col of Stamp t \<Rightarrow> Some t | _ \<Rightarrow> None)"

definition sort_values :: "string \<Rightarrow> row list \<Rightarrow> row list" where
  \<comment> \<open>\<open>sort_values(by=date_col)\<close> on a date-time column: the rows with a date in ascending
    order, then the rows with NaT in the order they had. Rows of equal date keep their
    order here; pandas' default sort does not promise that.\<close>
  "sort_values date_col rs =
     sort_key (\<lambda>r. the (date_key date_col r)) (filter (\<lambda>r. date_key date_col r \<noteq> None) rs)
     @ filter (\<lambda>r. date_key date_col r = None) rs"

definition sort_by_date :: "pandas \<Rightarrow> string \<Rightarrow> dataframe \<Rightarrow> dataframe" where
  \<comment> \<open>\<open>try: coerce the date column, sort by it; except Exception: pass\<close>. An exception of
    \<open>pd.to_datetime\<close>, or of the assignment of a column of another length, leaves the
    frame as it was.\<close>
  "sort_by_date lib date_col final_df =
     (case to_datetime lib (map (\<lambda>r. cell_at r date_col) (rows final_df)) of
        None \<Rightarrow> final_df
      | Some ks \<Rightarrow>
          if length ks \<noteq> length (rows final_df) then final_df
          else final_df\<lparr>rows :=
                 sort_values date_col
                   (map2 (\<lambda>r k. r(date_col \<mapsto> stamp_cell k)) (rows final_df) ks)\<rparr>)"

definition final_df :: "pandas \<Rightarrow> (role \<Rightarrow> string option) \<Rightarrow> dataframe \<Rightarrow> dataframe" where
  \<comment> \<open>the frame \<open>final_df\<close> when it is written: the sheet with the mirrored rows after it,
    sorted by date if that can be done\<close>
  "final_df lib c df = sort_by_date lib (the (c Date)) (concat_frames df (mirrored lib c df))"

definition hand_out ::
  "pandas \<Rightarrow> dataframe \<Rightarrow> message list \<Rightarrow> message list \<Rightarrow> error + dataframe \<times> message list" where
  \<comment> \<open>\<open>frame.to_excel(buffer)\<close> in the \<open>try\<close> block, after the messages \<open>shown\<close> and before
    the messages \<open>after\<close>: an exception of \<open>to_excel\<close> goes to the handler of the block
    (lines 173 to 175), and the buffer is not offered for download\<close>
  "hand_out lib frame shown after =
     (if to_excel lib frame then Inr (frame, shown @ after) else Inl (ProcessingFailed shown))"

definition process ::
  "pandas \<Rightarrow> (role \<Rightarrow> string option) \<Rightarrow> dataframe \<Rightarrow> error + dataframe \<times> message list" where
  \<comment> \<open>the \<open>try\<close> block that processes the file, once the required columns are there. The
    \<open>st.stop()\<close> of the early exit is no \<open>Exception\<close>, so the handler lets it through.\<close>
  "process lib c df =
     (if df_non_inr lib (the (c Market)) df = []
      then hand_out lib df [Info_nothing_to_mirror] []
      else
        (let warnings = snd (convert lib (float64 df) (the (c Price)) (the (c Total)) (c Usd_inr)
               (prepare_mirrored lib (the (c Market)) (the (c Trade_type)) (the (c Quantity))
                  (df_non_inr lib (the (c Market)) df)))
         in hand_out lib (final_df lib c df) warnings [Success_complete]))"

definition app :: "pandas \<Rightarrow> dataframe \<Rightarrow> error + dataframe \<times> message list" where
  \<comment> \<open>the application from the sheet that was read to what the user can download\<close>
  "app lib df_raw =
     (let orig_cols = columns df_raw in
      if missing orig_cols \<noteq> []
      then Inl (MissingRequiredColumns (map role_name (missing orig_cols)))
      else process lib (col orig_cols) df_raw)"

text \<open>
  The examples read a sheet as a list of rows laid out on its header, and read a frame back
  the same way. Their library \<open>plain_cells\<close> agrees with pandas on the cells they hold: a
  date-time cell is its own instant, a text that is no date becomes NaT and a text that is
  no number becomes NaN, and every frame is written; it is never asked for the text of a
  cell that is not text, nor for a \<open>float64\<close> that is not a whole number up to \<open>2 ^ 53\<close>.
\<close>

definition sheet :: "string list \<Rightarrow> cell list list \<Rightarrow> dataframe" where
  \<comment> \<open>the frame that \<open>pd.read_excel\<close> makes of a sheet that holds its whole numbers as
    integers\<close>
  "sheet header body =
     \<lparr>columns = header, rows = map (\<lambda>cs. map_of (zip header cs)) body,
      float64 = filter (\<lambda>c. float_column (map (\<lambda>cs. cell_at (map_of (zip header cs)) c) body)) header\<rparr>"

definition cells :: "dataframe \<Rightarrow> cell list list" where
  "cells df = map (\<lambda>r. map (cell_at r) (columns df)) (rows df)"

definition plain_cells :: pandas where
  "plain_cells =
     \<lparr>str_of = (\<lambda>c. ''nan''), numeric_of = (\<lambda>c. None),
      float_of_int = (\<lambda>n. of_int n), float_mul = (\<lambda>v w. Number (v * w)),
      to_datetime = (\<lambda>cs. Some (map (\<lambda>c. case c of Stamp t \<Rightarrow> Some t | _ \<Rightarrow> None) cs)),
      to_excel = (\<lambda>frame. True)\<rparr>"

definition trade_header :: "string list" where
  "trade_header = [''Market'', ''Date'', ''Trade Type'', ''Quantity'', ''Price'', ''Total'', ''USD_INR'']"

definition pair_header :: "string list" where
  \<comment> \<open>a header with other accepted names and no rate column\<close>
  "pair_header = [''Pair'', ''Date'', ''Side'', ''Qty'', ''Rate'', ''Amount'']"

definition punctuated_header :: "string list" where
  \<comment> \<open>a header whose names are the accepted ones only after the normalisation\<close>
  "punctuated_header =
     [''  Market '', ''Trade-Date'', ''Trade Type:'', ''QTY.'', ''Final  Price'', ''Gross_Amount'',
      ''USD/INR rate'']"

definition raising :: pandas where
  \<comment> \<open>\<open>plain_cells\<close> with a date conversion that raises\<close>
  "raising = plain_cells\<lparr>to_datetime := (\<lambda>cs. None)\<rparr>"

definition unwritable :: pandas where
  \<comment> \<open>\<open>plain_cells\<close> with a \<open>to_excel\<close> that raises, as it does on dates with a time zone\<close>
  "unwritable = plain_cells\<lparr>to_excel := (\<lambda>frame. False)\<rparr>"

definition run_cells :: "pandas \<Rightarrow> dataframe \<Rightarrow> error + cell list list \<times> message list" where
  \<comment> \<open>a run of the application, its frame read back as rows of cells\<close>
  "run_cells lib df = (case app lib df of Inl e \<Rightarrow> Inl e | Inr (out, msgs) \<Rightarrow> Inr (cells out, msgs))"

definition trade1 :: dataframe where
  \<comment> \<open>the sheet of the specification's end-to-end scenario, dated 5\<close>
  "trade1 = sheet trade_header
     [[Text ''BTC-USDT'', Stamp 5, Text ''BUY'', Number 2, Number 50000, Number 100000, Number 83]]"

definition trade2 :: dataframe where
  \<comment> \<open>a price that is no number, a date that is no date, dates out of order\<close>
  "trade2 = sheet trade_header
     [[Text ''BTC-USDT'', Stamp 9, Text ''BUY'', Number 2, Text ''abc'', Number 100000, Number 83],
      [Text ''ETHINR'', Text ''unknown'', Text ''sell'', Number 1, Number 200000, Number 200000, Number 83],
      [Text ''BTCINR'', Stamp 1, Text ''SELL'', Number 3, Number 10, Number 30, Number 83]]"

definition trade3 :: dataframe where
  \<comment> \<open>a sheet with no rate column\<close>
  "trade3 = sheet pair_header
     [[Text ''ETHBTC'', Stamp 7, Text ''sell'', Number 4, Number 20, Number 80]]"

definition trade4 :: dataframe where
  \<comment> \<open>a sheet with no rate column and INR pairs only\<close>
  "trade4 = sheet pair_header
     [[Text ''BTCINR'', Stamp 7, Text ''BUY'', Number 1, Number 4000000, Number 4000000]]"



section \<open>The mirroring read row by row\<close>

text \<open>
  The application computes the mirrored frame column by column. \<open>mirror_row\<close> is the same
  computation read row by row, every cell written in terms of the cells of the original
  row and, for the products, of the series that are multiplied;
  \<open>mirrored_row_by_row\<close> below proves that the two agree on the columns that the
  application detects.
\<close>

definition mirror_row ::
  "pandas \<Rightarrow> string \<Rightarrow> string \<Rightarrow> string \<Rightarrow> string \<Rightarrow> string \<Rightarrow> string option
     \<Rightarrow> string list \<Rightarrow> row list \<Rightarrow> row \<Rightarrow> row" where
  "mirror_row lib mkt_col tt_col qty_col price_col total_col usd_col floats non_inr r =
     (let r1 = r(''__quote__'' \<mapsto> Text (extract_quote lib (cell_at r mkt_col)),
                 mkt_col \<mapsto> Text (extract_quote lib (cell_at r mkt_col) @ ''INR''),
                 tt_col \<mapsto> Text (flip (upper (py_str lib (cell_at r tt_col)))),
                 qty_col \<mapsto> cell_at r qty_col);
          r2 = (case usd_col of
                  None \<Rightarrow> r1
                | Some u \<Rightarrow>
                    r1(price_col \<mapsto> multiply lib (series floats non_inr price_col)
                                       (series floats non_inr u) (cell_at r price_col) (cell_at r u),
                       total_col \<mapsto> multiply lib (series floats non_inr total_col)
                                       (series floats non_inr u) (cell_at r total_col) (cell_at r u),
                       u \<mapsto> Number 1))
      in r2(''__quote__'' := None))"

section \<open>The specification's wording\<close>

text \<open>
  Definitions that follow the words of the specification rather than the code, to be
  compared with \<open>extract_quote\<close>, \<open>clean_name\<close> and \<open>find_col\<close>. They are written without
  the functions of the code: the case of a letter is changed by a table, trimming drops
  the characters of a list at the end and then at the beginning, and a symbol ends with a
  quote when the quote is a suffix of it.

  The quote is taken from the symbol in upper case and trimmed: the text after the last
  separator, else the first known quote the symbol ends with, else the last three
  characters. A name is normalised by turning every character outside \<open>[0-9a-zA-Z]\<close> into
  the separator, collapsing the runs of separators, trimming the separators at the edges
  and lower-casing. A role is bound to the first of all matches, the candidates in their
  priority order and, for one candidate, the columns from left to right.
\<close>

definition upper_spec :: "string \<Rightarrow> string" where
  "upper_spec s =
     map (\<lambda>c. case map_of (zip ''abcdefghijklmnopqrstuvwxyz'' ''ABCDEFGHIJKLMNOPQRSTUVWXYZ'') c of
                 Some u \<Rightarrow> u | None \<Rightarrow> c) s"

definition lower_spec :: "string \<Rightarrow> string" where
  "lower_spec s =
     map (\<lambda>c. case map_of (zip ''ABCDEFGHIJKLMNOPQRSTUVWXYZ'' ''abcdefghijklmnopqrstuvwxyz'') c of
                 Some l \<Rightarrow> l | None \<Rightarrow> c) s"

definition whitespace :: string where
  \<comment> \<open>TAB, LF, VT, FF, CR, FS, GS, RS, US and the space\<close>
  "whitespace =
     [CHR 0x09, CHR 0x0A, CHR 0x0B, CHR 0x0C, CHR 0x0D, CHR 0x1C, CHR 0x1D, CHR 0x1E, CHR 0x1F, CHR '' '']"

definition trim_spec :: "string \<Rightarrow> string \<Rightarrow> string" where
  "trim_spec chars s =
     dropWhile (\<lambda>c. c \<in> set chars) (rev (dropWhile (\<lambda>c. c \<in> set chars) (rev s)))"

definition after_last :: "char \<Rightarrow> string \<Rightarrow> string" where
  "after_last sep s = rev (takeWhile (\<lambda>c. c \<noteq> sep) (rev s))"

definition quote_by_spec :: "string \<Rightarrow> string" where
  "quote_by_spec symbol =
     (let s = trim_spec whitespace (upper_spec symbol) in
      if CHR ''-'' \<in> set s then after_last (CHR ''-'') s
      else (case List.find (\<lambda>q. suffix q s) [''USDT'', ''BUSD'', ''USD'', ''ETH'', ''BTC'', ''INR''] of
              Some q \<Rightarrow> q
            | None \<Rightarrow> rev (take 3 (rev s))))"

definition alnum_chars :: string where
  "alnum_chars = ''0123456789abcdefghijklmnopqrstuvwxyzABCDEFGHIJKLMNOPQRSTUVWXYZ''"

fun collapse :: "string \<Rightarrow> string" where
  \<comment> \<open>a run of separators becomes one separator\<close>
  "collapse (a # b # cs) =
     (if a = CHR ''_'' \<and> b = CHR ''_'' then collapse (b # cs) else a # collapse (b # cs))"
| "collapse cs = cs"

definition normalize_spec :: "string \<Rightarrow> string" where
  "normalize_spec s =
     lower_spec (trim_spec ''_''
       (collapse (map (\<lambda>c. if c \<in> set alnum_chars then c else CHR ''_'') s)))"

definition all_matches :: "string list \<Rightarrow> string list \<Rightarrow> string list" where
  "all_matches cols pats =
     concat (map (\<lambda>p. filter (\<lambda>c. normalize_spec c = normalize_spec p) cols) pats)"

definition first_match :: "string list \<Rightarrow> string list \<Rightarrow> string option" where
  "first_match cols pats = (case all_matches cols pats of [] \<Rightarrow> None | c # _ \<Rightarrow> Some c)"

section \<open>Facts about the helper functions\<close>

lemma split_on_not_Nil: "split_on sep s \<noteq> []"
  by (induction s) (auto split: list.splits)

lemma split_on_no_sep: "sep \<notin> set s \<Longrightarrow> split_on sep s = [s]"
  by (induction s) auto

lemma split_on_two: "sep \<in> set s \<Longrightarrow> \<exists>w v ws. split_on sep s = w # v # ws"
proof (induction s)
  case Nil
  then show ?case by simp
next
  case (Cons c cs)
  show ?case
  proof (cases "c = sep")
    case True
    obtain v ws where "split_on sep cs = v # ws"
      using split_on_not_Nil[of sep cs] by (cases "split_on sep cs") auto
    with True show ?thesis by simp
  next
    case False
    with Cons.prems have "sep \<in> set cs" by simp
    from Cons.IH[OF this] obtain w v ws where "split_on sep cs = w # v # ws" by blast
    with False show ?thesis by simp
  qed
qed

lemma last_split_on: "last (split_on sep s) = after_last sep s"
proof (induction s)
  case Nil
  show ?case by (simp add: after_last_def)
next
  case (Cons c cs)
  show ?case
  proof (cases "sep \<in> set cs")
    case True
    from split_on_two[OF True] obtain w v ws where sp: "split_on sep cs = w # v # ws" by blast
    have "last (split_on sep (c # cs)) = last (split_on sep cs)"
      using sp by simp
    moreover have "after_last sep (c # cs) = after_last sep cs"
      using True by (simp add: after_last_def takeWhile_append1[where x = sep])
    ultimately show ?thesis using Cons.IH by simp
  next
    case False
    then have "split_on sep cs = [cs]" by (rule split_on_no_sep)
    moreover have "takeWhile (\<lambda>x. x \<noteq> sep) (rev cs @ [c])
        = rev cs @ takeWhile (\<lambda>x. x \<noteq> sep) [c]"
      by (rule takeWhile_append2) (use False in auto)
    then have "after_last sep (c # cs) = (if c = sep then cs else c # cs)"
      by (simp add: after_last_def)
    ultimately show ?thesis by simp
  qed
qed

lemma endswith_suffix: "endswith s q \<longleftrightarrow> suffix q s"
proof
  assume "endswith s q"
  then have "s = take (length s - length q) s @ q"
    by (simp add: endswith_def) (metis append_take_drop_id)
  then show "suffix q s" by (rule suffixI)
next
  assume "suffix q s"
  then obtain p where "s = p @ q" by (rule suffixE)
  then show "endswith s q" by (simp add: endswith_def)
qed

lemma first_suffix_find: "first_suffix s qs = List.find (\<lambda>q. suffix q s) qs"
  by (induction qs) (auto simp: endswith_suffix)

lemma last_chars_rev: "last_chars n s = rev (take n (rev s))"
  by (simp add: last_chars_def take_rev)

subsection \<open>The functions on characters are the tables\<close>

lemma upper_char_table:
  "upper_char c =
     (case map_of (zip ''abcdefghijklmnopqrstuvwxyz'' ''ABCDEFGHIJKLMNOPQRSTUVWXYZ'') c of
        Some u \<Rightarrow> u | None \<Rightarrow> c)"
  by (cases c) (auto simp: upper_char_def is_lower_def)

lemma lower_char_table:
  "lower_char c =
     (case map_of (zip ''ABCDEFGHIJKLMNOPQRSTUVWXYZ'' ''abcdefghijklmnopqrstuvwxyz'') c of
        Some l \<Rightarrow> l | None \<Rightarrow> c)"
  by (cases c) (auto simp: lower_char_def is_upper_def)

lemma is_space_table: "is_space c \<longleftrightarrow> c \<in> set whitespace"
  by (cases c) (auto simp: is_space_def whitespace_def)

lemma is_alnum_table: "is_alnum c \<longleftrightarrow> c \<in> set alnum_chars"
  by (cases c) (auto simp: is_alnum_def is_digit_def is_lower_def is_upper_def alnum_chars_def)

lemma upper_is_spec: "upper s = upper_spec s"
  by (simp add: upper_def upper_spec_def upper_char_table)

lemma lower_is_spec: "lower s = lower_spec s"
  by (simp add: lower_def lower_spec_def lower_char_table)

subsection \<open>Trimming at both ends, in either order\<close>

lemma drop_end_Cons:
  "rev (dropWhile p (rev cs @ [c])) =
     (if \<forall>x\<in>set cs. p x then (if p c then [] else [c]) else c # rev (dropWhile p (rev cs)))"
  by (simp add: dropWhile_append)

lemma drop_both_ends:
  "rev (dropWhile p (rev (dropWhile p s))) = dropWhile p (rev (dropWhile p (rev s)))"
proof (induction s)
  case Nil
  show ?case by simp
next
  case (Cons c cs)
  have step: "rev (dropWhile p (rev (c # cs))) =
     (if \<forall>x\<in>set cs. p x then (if p c then [] else [c]) else c # rev (dropWhile p (rev cs)))"
    by (simp only: rev.simps drop_end_Cons)
  show ?case
  proof (cases "p c")
    case True
    then have l: "dropWhile p (c # cs) = dropWhile p cs" by simp
    show ?thesis
    proof (cases "\<forall>x\<in>set cs. p x")
      case all: True
      then have e: "dropWhile p cs = []" by simp
      have "rev (dropWhile p (rev (c # cs))) = []"
        unfolding step using True all by simp
      then show ?thesis by (simp only: l e) simp
    next
      case False
      then have "rev (dropWhile p (rev (c # cs))) = c # rev (dropWhile p (rev cs))"
        unfolding step by simp
      then have "dropWhile p (rev (dropWhile p (rev (c # cs)))) = dropWhile p (rev (dropWhile p (rev cs)))"
        using True by (simp only: dropWhile.simps if_True)
      then show ?thesis by (simp only: l Cons.IH)
    qed
  next
    case False
    then have l: "dropWhile p (c # cs) = c # cs" by simp
    have "dropWhile p (rev (dropWhile p (rev (c # cs)))) = rev (dropWhile p (rev (c # cs)))"
      unfolding step using False by simp
    then show ?thesis by (simp only: l)
  qed
qed

lemma strip_chars_is_spec: "strip_chars (\<lambda>c. c \<in> set chars) s = trim_spec chars s"
  by (simp add: strip_chars_def trim_spec_def drop_both_ends)

lemma strip_is_spec: "strip s = trim_spec whitespace s"
proof -
  have h: "is_space = (\<lambda>c. c \<in> set whitespace)"
    by (rule ext) (rule is_space_table)
  show ?thesis by (simp only: strip_def h strip_chars_is_spec)
qed

subsection \<open>The substitution of the regular expression\<close>

lemma collapse_other: "a \<noteq> CHR ''_'' \<Longrightarrow> collapse (a # cs) = a # collapse cs"
  by (cases cs) simp_all

lemma not_alnum_underscore: "\<not> is_alnum (CHR ''_'')"
  by (simp add: is_alnum_def is_digit_def is_lower_def is_upper_def)

lemma sub_runs_collapse:
  "sub_runs False s = collapse (map (\<lambda>c. if is_alnum c then c else CHR ''_'') s)
   \<and> CHR ''_'' # sub_runs True s
       = collapse (CHR ''_'' # map (\<lambda>c. if is_alnum c then c else CHR ''_'') s)"
proof (induction s)
  case Nil
  show ?case by simp
next
  case (Cons c cs)
  show ?case
  proof (cases "is_alnum c")
    case True
    then have "c \<noteq> CHR ''_''" using not_alnum_underscore by auto
    with True Cons.IH show ?thesis by (simp add: collapse_other)
  next
    case False
    with Cons.IH show ?thesis by simp
  qed
qed

lemma clean_name_is_spec: "clean_name s = normalize_spec s"
proof -
  have a: "(\<lambda>c. if is_alnum c then c else CHR ''_'') = (\<lambda>c. if c \<in> set alnum_chars then c else CHR ''_'')"
    by (rule ext) (simp add: is_alnum_table)
  have "strip_chars (\<lambda>c. c = CHR ''_'') x = trim_spec ''_'' x" for x
    using strip_chars_is_spec[of "''_''" x] by simp
  then show ?thesis
    by (simp add: clean_name_def normalize_spec_def sub_non_alnum_def sub_runs_collapse
        lower_is_spec a)
qed

lemma find_in_cols_Some:
  "find_in_cols cs t = Some c \<Longrightarrow> c \<in> set cs \<and> clean_name c = t"
  by (induction cs) (auto split: if_splits)

lemma find_in_cols_None:
  "find_in_cols cs t = None \<longleftrightarrow> (\<forall>c\<in>set cs. clean_name c \<noteq> t)"
  by (induction cs) auto

lemma find_in_cols_filter:
  "find_in_cols cs t = (case filter (\<lambda>c. clean_name c = t) cs of [] \<Rightarrow> None | c # _ \<Rightarrow> Some c)"
  by (induction cs) auto

lemma find_pats_Some:
  "find_pats cs ps = Some c \<Longrightarrow> c \<in> set cs \<and> (\<exists>p\<in>set ps. clean_name c = clean_name p)"
  by (induction ps) (auto split: option.splits dest: find_in_cols_Some)

lemma find_pats_None:
  "find_pats cs ps = None \<longleftrightarrow> (\<forall>p\<in>set ps. \<forall>c\<in>set cs. clean_name c \<noteq> clean_name p)"
proof (induction ps)
  case Nil
  show ?case by simp
next
  case (Cons p ps)
  show ?case
  proof (cases "find_in_cols cs (clean_name p)")
    case None
    then have "\<forall>c\<in>set cs. clean_name c \<noteq> clean_name p" by (simp add: find_in_cols_None)
    with Cons None show ?thesis by simp
  next
    case (Some c)
    from find_in_cols_Some[OF Some] have "\<exists>c\<in>set cs. clean_name c = clean_name p" by blast
    with Some show ?thesis by auto
  qed
qed

lemma find_pats_first_match: "find_pats cs ps = first_match cs ps"
proof (induction ps)
  case Nil
  show ?case by (simp add: first_match_def all_matches_def)
next
  case (Cons p ps)
  show ?case
  proof (cases "filter (\<lambda>c. clean_name c = clean_name p) cs")
    case Nil
    with Cons show ?thesis
      by (simp add: first_match_def all_matches_def find_in_cols_filter
          clean_name_is_spec[symmetric])
  next
    case (Cons c cs')
    then show ?thesis
      by (simp add: first_match_def all_matches_def find_in_cols_filter
          clean_name_is_spec[symmetric])
  qed
qed

lemma tokens:
  "map clean_name (candidates Market) = [''market'', ''pair'', ''market_2'']"
  "map clean_name (candidates Date) = [''date'', ''trade_date'', ''trade_date'']"
  "map clean_name (candidates Trade_type) = [''trade_type'', ''trade_type'', ''side'', ''action'']"
  "map clean_name (candidates Quantity) = [''quantity'', ''qty'', ''totalvolume'', ''total_volume'']"
  "map clean_name (candidates Price) = [''price'', ''final_price'', ''rate'', ''actualrate'']"
  "map clean_name (candidates Total) = [''total'', ''amount'', ''total_inr'', ''gross_amount'']"
  "map clean_name (candidates Usd_inr) = [''usd_inr_rate'', ''usd_inr'', ''usd_inr'', ''usd_inr'']"
  by code_simp+

lemma quote_token: "clean_name ''__quote__'' = ''quote''"
  by code_simp

lemma col_token:
  "col cs r = Some c \<Longrightarrow> c \<in> set cs \<and> clean_name c \<in> set (map clean_name (candidates r))"
  unfolding col_def by (auto dest: find_pats_Some)

lemma col_distinct:
  assumes "col cs r = Some c" "col cs r' = Some c'" "r \<noteq> r'"
  shows "c \<noteq> c'"
proof
  assume "c = c'"
  with col_token[OF assms(1)] col_token[OF assms(2)]
  have "clean_name c \<in> set (map clean_name (candidates r))"
       "clean_name c \<in> set (map clean_name (candidates r'))" by auto
  with assms(3) show False
    by (cases r; cases r'; auto simp add: tokens simp del: candidates.simps)
qed

lemma col_not_quote:
  assumes "col cs r = Some c"
  shows "c \<noteq> ''__quote__''"
proof
  assume "c = ''__quote__''"
  with col_token[OF assms] quote_token
  have "''quote'' \<in> set (map clean_name (candidates r))" by simp
  then show False
    by (cases r; simp add: tokens del: candidates.simps)
qed

lemma col_not_empty:
  assumes "col cs r = Some c"
  shows "c \<noteq> []"
proof
  assume "c = []"
  moreover have "clean_name [] = []" by code_simp
  ultimately have "[] \<in> set (map clean_name (candidates r))"
    using col_token[OF assms] by simp
  then show False
    by (cases r; simp add: tokens del: candidates.simps)
qed

lemma missing_Nil: "missing cs = [] \<longleftrightarrow> (\<forall>r\<in>set required. col cs r \<noteq> None)"
  by (auto simp: missing_def filter_empty_conv)

lemma trade_header_cols:
  "col trade_header Market = Some ''Market''"
  "col trade_header Date = Some ''Date''"
  "col trade_header Trade_type = Some ''Trade Type''"
  "col trade_header Quantity = Some ''Quantity''"
  "col trade_header Price = Some ''Price''"
  "col trade_header Total = Some ''Total''"
  "col trade_header Usd_inr = Some ''USD_INR''"
  by code_simp+

lemma trade_header_missing: "missing trade_header = []"
  by (simp add: missing_def required_def trade_header_cols)


section \<open>Facts about rows and the mirrored frame\<close>

lemma cell_at_upd [simp]: "cell_at (r(c \<mapsto> v)) c' = (if c' = c then v else cell_at r c')"
  by (simp add: cell_at_def)

lemma cell_at_drop [simp]: "cell_at (r(c := None)) c' = (if c' = c then Missing else cell_at r c')"
  by (simp add: cell_at_def)

lemma cell_at_reindex: "c \<in> set cols \<Longrightarrow> cell_at (reindex cols r) c = cell_at r c"
  by (simp add: cell_at_def reindex_def)

lemma length_mirrored: "length (mirrored lib c df) = length (df_non_inr lib (the (c Market)) df)"
  by (simp add: mirrored_def drop_column_def convert_def prepare_mirrored_def assign_def Let_def
      split: option.splits)

lemma resolved:
  assumes "missing cs = []"
  obtains m d tt q p t where
    "col cs Market = Some m" "col cs Date = Some d" "col cs Trade_type = Some tt"
    "col cs Quantity = Some q" "col cs Price = Some p" "col cs Total = Some t"
proof -
  from assms have "\<forall>r\<in>set required. col cs r \<noteq> None" by (simp add: missing_Nil)
  then have "col cs Market \<noteq> None" "col cs Date \<noteq> None" "col cs Trade_type \<noteq> None"
    "col cs Quantity \<noteq> None" "col cs Price \<noteq> None" "col cs Total \<noteq> None"
    by (simp_all add: required_def)
  then show thesis using that by auto
qed

lemma mirrored_rows_explicit:
  assumes "c Market = Some m" "c Trade_type = Some tt" "c Quantity = Some q"
    "c Price = Some p" "c Total = Some t" "c Usd_inr = usd"
    and d: "distinct [''__quote__'', m, tt, q, p, t]"
    and u: "\<forall>u. usd = Some u \<longrightarrow> u \<notin> set [''__quote__'', m, tt, q, p, t]"
  shows "mirrored lib c df =
     map (mirror_row lib m tt q p t usd (float64 df) (df_non_inr lib m df)) (df_non_inr lib m df)"
proof -
  from d have ne:
    "m \<noteq> ''__quote__''" "tt \<noteq> ''__quote__''" "q \<noteq> ''__quote__''"
    "p \<noteq> ''__quote__''" "t \<noteq> ''__quote__''"
    "tt \<noteq> m" "q \<noteq> m" "p \<noteq> m" "t \<noteq> m" "q \<noteq> tt" "p \<noteq> tt" "t \<noteq> tt"
    "p \<noteq> q" "t \<noteq> q" "t \<noteq> p"
    "''__quote__'' \<noteq> m" "''__quote__'' \<noteq> tt" "''__quote__'' \<noteq> q"
    "''__quote__'' \<noteq> p" "''__quote__'' \<noteq> t"
    "m \<noteq> tt" "m \<noteq> q" "m \<noteq> p" "m \<noteq> t" "tt \<noteq> q" "tt \<noteq> p" "tt \<noteq> t"
    "q \<noteq> p" "q \<noteq> t" "p \<noteq> t"
    by auto
  show ?thesis
  proof (cases usd)
    case None
    with assms(1-6) ne show ?thesis
      by (simp add: mirrored_def drop_column_def convert_def prepare_mirrored_def assign_def
          mirror_row_def add_text_def Let_def)
  next
    case (Some u')
    with u have nu:
      "u' \<noteq> ''__quote__''" "u' \<noteq> m" "u' \<noteq> tt" "u' \<noteq> q" "u' \<noteq> p" "u' \<noteq> t"
      "''__quote__'' \<noteq> u'" "m \<noteq> u'" "tt \<noteq> u'" "q \<noteq> u'" "p \<noteq> u'" "t \<noteq> u'"
      by auto
    from Some assms(1-6) ne nu show ?thesis
      by (simp add: mirrored_def drop_column_def convert_def prepare_mirrored_def assign_def
          mirror_row_def add_text_def series_def comp_def Let_def)
  qed
qed

lemma mirrored_row_by_row:
  assumes "missing cs = []"
  shows "mirrored lib (col cs) df =
     map (mirror_row lib (the (col cs Market)) (the (col cs Trade_type)) (the (col cs Quantity))
            (the (col cs Price)) (the (col cs Total)) (col cs Usd_inr)
            (float64 df) (df_non_inr lib (the (col cs Market)) df))
         (df_non_inr lib (the (col cs Market)) df)"
proof -
  from assms obtain m d tt q p t where r:
    "col cs Market = Some m" "col cs Date = Some d" "col cs Trade_type = Some tt"
    "col cs Quantity = Some q" "col cs Price = Some p" "col cs Total = Some t"
    by (rule resolved)
  have d: "distinct [''__quote__'', m, tt, q, p, t]"
    using col_distinct[OF r(1) r(3)] col_distinct[OF r(1) r(4)] col_distinct[OF r(1) r(5)]
      col_distinct[OF r(1) r(6)] col_distinct[OF r(3) r(4)] col_distinct[OF r(3) r(5)]
      col_distinct[OF r(3) r(6)] col_distinct[OF r(4) r(5)] col_distinct[OF r(4) r(6)]
      col_distinct[OF r(5) r(6)]
      col_not_quote[OF r(1)] col_not_quote[OF r(3)] col_not_quote[OF r(4)]
      col_not_quote[OF r(5)] col_not_quote[OF r(6)]
    by auto
  have u: "\<forall>u. col cs Usd_inr = Some u \<longrightarrow> u \<notin> set [''__quote__'', m, tt, q, p, t]"
  proof (intro allI impI)
    fix u assume h: "col cs Usd_inr = Some u"
    show "u \<notin> set [''__quote__'', m, tt, q, p, t]"
      using col_distinct[OF h r(1)] col_distinct[OF h r(3)] col_distinct[OF h r(4)]
        col_distinct[OF h r(5)] col_distinct[OF h r(6)] col_not_quote[OF h]
      by auto
  qed
  show ?thesis
    using mirrored_rows_explicit[of "col cs" m tt q p t "col cs Usd_inr" lib df, OF r(1) r(3) r(4) r(5) r(6) refl d u]
    by (simp add: r)
qed


subsection \<open>Sorting by date\<close>

lemma mset_sort_values: "mset (sort_values d rs) = mset rs"
  by (induction rs) (auto simp: sort_values_def)

lemma length_sort_values: "length (sort_values d rs) = length rs"
proof -
  have "size (mset (sort_values d rs)) = size (mset rs)" by (simp only: mset_sort_values)
  then show ?thesis by simp
qed


lemma keys_sort_values:
  "\<exists>ts n. map (date_key d) (sort_values d rs) = map Some ts @ replicate n None \<and> sorted ts"
proof -
  let ?ys = "sort_key (\<lambda>r. the (date_key d r)) (filter (\<lambda>r. date_key d r \<noteq> None) rs)"
  let ?zs = "filter (\<lambda>r. date_key d r = None) rs"
  have "\<forall>r\<in>set ?ys. date_key d r = Some (the (date_key d r))" by auto
  then have a: "map (date_key d) ?ys = map Some (map (\<lambda>r. the (date_key d r)) ?ys)"
    by (simp add: map_idI)
  have b: "map (date_key d) ?zs = replicate (length ?zs) None"
    by (induction rs) auto
  have c: "sorted (map (\<lambda>r. the (date_key d r)) ?ys)"
    by (rule sorted_sort_key)
  have "map (date_key d) (sort_values d rs)
      = map Some (map (\<lambda>r. the (date_key d r)) ?ys) @ replicate (length ?zs) None"
    unfolding sort_values_def map_append a b by (rule refl)
  with c show ?thesis by blast
qed

lemma undated_sort_values:
  "filter (\<lambda>r. date_key d r = None) (sort_values d rs) = filter (\<lambda>r. date_key d r = None) rs"
  by (simp add: sort_values_def filter_empty_conv)

lemma date_key_stamp [simp]: "date_key d (r(d \<mapsto> stamp_cell k)) = k"
  by (cases k) (simp_all add: date_key_def stamp_cell_def)

lemma sort_by_date_raises:
  "to_datetime lib (map (\<lambda>r. cell_at r d) (rows F)) = None \<Longrightarrow> sort_by_date lib d F = F"
  by (simp add: sort_by_date_def)

lemma sort_by_date_bad_length:
  "to_datetime lib (map (\<lambda>r. cell_at r d) (rows F)) = Some ks \<Longrightarrow> length ks \<noteq> length (rows F)
     \<Longrightarrow> sort_by_date lib d F = F"
  by (simp add: sort_by_date_def)

lemma sort_by_date_sorts:
  "to_datetime lib (map (\<lambda>r. cell_at r d) (rows F)) = Some ks \<Longrightarrow> length ks = length (rows F)
     \<Longrightarrow> sort_by_date lib d F =
         F\<lparr>rows := sort_values d (map2 (\<lambda>r k. r(d \<mapsto> stamp_cell k)) (rows F) ks)\<rparr>"
  by (simp add: sort_by_date_def)

lemma columns_sort_by_date [simp]: "columns (sort_by_date lib d F) = columns F"
  by (simp add: sort_by_date_def split: option.splits)

lemma map2_ignores:
  assumes "\<And>r v. k (r(d \<mapsto> v)) = k r" "length ks = length rs"
  shows "map k (map2 (\<lambda>r x. r(d \<mapsto> f x)) rs ks) = map k rs"
  using assms(2) by (intro nth_equalityI) (simp_all add: assms(1))

lemma mset_sort_by_date:
  assumes "\<And>r v. k (r(d \<mapsto> v)) = k r"
  shows "mset (map k (rows (sort_by_date lib d F))) = mset (map k (rows F))"
proof (cases "to_datetime lib (map (\<lambda>r. cell_at r d) (rows F))")
  case None
  then show ?thesis by (simp add: sort_by_date_raises)
next
  case (Some ks)
  show ?thesis
  proof (cases "length ks = length (rows F)")
    case False
    with Some show ?thesis by (simp add: sort_by_date_bad_length)
  next
    case True
    have "mset (map k (sort_values d (map2 (\<lambda>r x. r(d \<mapsto> stamp_cell x)) (rows F) ks)))
        = mset (map k (map2 (\<lambda>r x. r(d \<mapsto> stamp_cell x)) (rows F) ks))"
      by (simp only: mset_map mset_sort_values)
    also have "\<dots> = mset (map k (rows F))"
      using map2_ignores[of k d ks "rows F" stamp_cell, OF assms True] by simp
    finally show ?thesis using Some True by (simp add: sort_by_date_sorts)
  qed
qed

lemma length_sort_by_date [simp]: "length (rows (sort_by_date lib d F)) = length (rows F)"
proof -
  have "size (mset (map (\<lambda>r. ()) (rows (sort_by_date lib d F))))
      = size (mset (map (\<lambda>r. ()) (rows F)))"
    by (simp only: mset_sort_by_date)
  then show ?thesis by simp
qed

subsection \<open>The whole run\<close>

lemma snd_convert:
  "snd (convert lib dfr p t usd ms) = (case usd of Some u \<Rightarrow> [] | None \<Rightarrow> [Warning_no_rate])"
  by (simp add: convert_def Let_def split: option.splits)

lemma process_early:
  "df_non_inr lib (the (c Market)) df = [] \<Longrightarrow>
   process lib c df =
     (if to_excel lib df then Inr (df, [Info_nothing_to_mirror])
      else Inl (ProcessingFailed [Info_nothing_to_mirror]))"
  by (simp add: process_def hand_out_def)

lemma process_mirrors:
  "df_non_inr lib (the (c Market)) df \<noteq> [] \<Longrightarrow>
   process lib c df =
     (if to_excel lib (final_df lib c df)
      then Inr (final_df lib c df,
             (case c Usd_inr of Some u \<Rightarrow> [] | None \<Rightarrow> [Warning_no_rate]) @ [Success_complete])
      else Inl (ProcessingFailed (case c Usd_inr of Some u \<Rightarrow> [] | None \<Rightarrow> [Warning_no_rate])))"
  by (simp add: process_def hand_out_def snd_convert Let_def)

lemma process_not_missing: "process lib c df \<noteq> Inl (MissingRequiredColumns names)"
  by (simp add: process_def hand_out_def Let_def)

lemma app_proceeds: "missing (columns df) = [] \<Longrightarrow> app lib df = process lib (col (columns df)) df"
  by (simp add: app_def)

lemma app_Inr:
  "app lib df = Inr x \<longleftrightarrow> missing (columns df) = [] \<and> process lib (col (columns df)) df = Inr x"
  by (auto simp: app_def Let_def split: if_splits)

lemma app_Inr_cases:
  assumes "app lib df = Inr (out, msgs)"
  obtains (early) "missing (columns df) = []"
      "df_non_inr lib (the (col (columns df) Market)) df = []"
      "out = df" "msgs = [Info_nothing_to_mirror]"
    | (mirrors) "missing (columns df) = []"
      "df_non_inr lib (the (col (columns df) Market)) df \<noteq> []"
      "out = final_df lib (col (columns df)) df"
      "msgs = (case col (columns df) Usd_inr of Some u \<Rightarrow> [] | None \<Rightarrow> [Warning_no_rate])
                @ [Success_complete]"
proof (cases "df_non_inr lib (the (col (columns df) Market)) df = []")
  case True
  from assms have m: "missing (columns df) = []"
    and p: "process lib (col (columns df)) df = Inr (out, msgs)"
    by (simp_all add: app_Inr)
  from p True have "out = df \<and> msgs = [Info_nothing_to_mirror]"
    by (simp add: process_early split: if_splits)
  with m True show thesis by (intro early) simp_all
next
  case False
  from assms have m: "missing (columns df) = []"
    and p: "process lib (col (columns df)) df = Inr (out, msgs)"
    by (simp_all add: app_Inr)
  from p False have "out = final_df lib (col (columns df)) df
      \<and> msgs = (case col (columns df) Usd_inr of Some u \<Rightarrow> [] | None \<Rightarrow> [Warning_no_rate])
                @ [Success_complete]"
    by (simp add: process_mirrors split: if_splits)
  with m False show thesis by (intro mirrors) simp_all
qed

lemma rows_concat_frames [simp]:
  "rows (concat_frames df ms) = map (reindex (columns df)) (rows df @ ms)"
  by (simp add: concat_frames_def)

lemma columns_concat_frames [simp]: "columns (concat_frames df ms) = columns df"
  by (simp add: concat_frames_def)

lemma plain_cells_writes [simp]: "to_excel plain_cells frame" "to_excel raising frame"
  by (simp_all add: plain_cells_def raising_def)

lemma unwritable_raises [simp]: "\<not> to_excel unwritable frame"
  by (simp add: unwritable_def plain_cells_def)


section \<open>Evaluating a run on a sheet\<close>

lemma insort_key_map: "insort_key k (h x) (map h ys) = map h (insort_key (\<lambda>y. k (h y)) x ys)"
  by (induction ys) auto

lemma sort_key_map: "sort_key k (map h xs) = map h (sort_key (\<lambda>y. k (h y)) xs)"
  by (induction xs) (simp_all add: insort_key_map)

lemma map_sort_values:
  "map g (sort_values d xs) =
     map snd (sort_key (\<lambda>p. the (fst p)) (filter (\<lambda>p. fst p \<noteq> None) (map (\<lambda>r. (date_key d r, g r)) xs))
              @ filter (\<lambda>p. fst p = None) (map (\<lambda>r. (date_key d r, g r)) xs))"
  by (simp add: sort_values_def sort_key_map filter_map comp_def)

lemma sort_by_date_plain:
  "sort_by_date plain_cells d F =
     F\<lparr>rows := sort_values d
        (map (\<lambda>r. r(d \<mapsto> stamp_cell (case cell_at r d of Stamp t \<Rightarrow> Some t | _ \<Rightarrow> None))) (rows F))\<rparr>"
proof -
  let ?D = "map (\<lambda>r. cell_at r d) (rows F)"
  let ?ks = "map (\<lambda>c. case c of Stamp t \<Rightarrow> Some t | _ \<Rightarrow> None) ?D"
  have "to_datetime plain_cells ?D = Some ?ks" by (simp add: plain_cells_def)
  moreover have "length ?ks = length (rows F)" by simp
  ultimately have "sort_by_date plain_cells d F =
     F\<lparr>rows := sort_values d (map2 (\<lambda>r k. r(d \<mapsto> stamp_cell k)) (rows F) ?ks)\<rparr>"
    by (rule sort_by_date_sorts)
  moreover have "map2 (\<lambda>r k. r(d \<mapsto> stamp_cell k)) (rows F) ?ks
     = map (\<lambda>r. r(d \<mapsto> stamp_cell (case cell_at r d of Stamp t \<Rightarrow> Some t | _ \<Rightarrow> None))) (rows F)"
    by (intro nth_equalityI) simp_all
  ultimately show ?thesis by simp
qed

text \<open>
  The cells of a run with the library \<open>plain_cells\<close>, from the cells of the rows that are
  concatenated: each row with its date as a key, the rows with a key sorted by it.
\<close>
lemma cells_run_plain:
  assumes "d \<in> set cols" "columns df = cols"
  shows "cells (sort_by_date plain_cells d (concat_frames df ms)) =
     map snd (sort_key (\<lambda>p. the (fst p)) (filter (\<lambda>p. fst p \<noteq> None)
        (map (\<lambda>r. (case cell_at r d of Stamp t \<Rightarrow> Some t | _ \<Rightarrow> None,
                    map (\<lambda>c. if c = d then (case cell_at r d of Stamp t \<Rightarrow> Stamp t | _ \<Rightarrow> Missing) else cell_at r c) cols)) (rows df @ ms)))
      @ filter (\<lambda>p. fst p = None)
        (map (\<lambda>r. (case cell_at r d of Stamp t \<Rightarrow> Some t | _ \<Rightarrow> None,
                    map (\<lambda>c. if c = d then (case cell_at r d of Stamp t \<Rightarrow> Stamp t | _ \<Rightarrow> Missing) else cell_at r c) cols)) (rows df @ ms)))"
proof -
  have k: "date_key d ((reindex cols r)(d \<mapsto> stamp_cell (case cell_at r d of Stamp t \<Rightarrow> Some t | _ \<Rightarrow> None)))
      = (case cell_at r d of Stamp t \<Rightarrow> Some t | _ \<Rightarrow> None)" for r
    using assms(1) by (simp add: cell_at_reindex)
  have g: "map (cell_at ((reindex cols r)(d \<mapsto> stamp_cell (case cell_at r d of Stamp t \<Rightarrow> Some t | _ \<Rightarrow> None)))) cols
      = map (\<lambda>c. if c = d then (case cell_at r d of Stamp t \<Rightarrow> Stamp t | _ \<Rightarrow> Missing) else cell_at r c) cols" for r
    using assms(1) by (auto simp: cell_at_reindex stamp_cell_def split: cell.splits)
  show ?thesis
    unfolding cells_def sort_by_date_plain
    by (simp add: assms map_sort_values comp_def k g cell_at_reindex del: map_append)
qed


lemmas string_defs = endswith_def upper_def upper_char_def is_lower_def flip_def py_str_def

lemmas numeric_defs = multiply_def int_series_def as_float_def float_column_def whole_cell_def
  is_whole_def in_int64_def to_numeric_def is_int_def wrap64_def exact_float_def series_def

lemma extract_quote_text: "extract_quote lib (Text s) = quote_by_spec s"
  by (simp add: extract_quote_def quote_by_spec_def py_str_def common_quotes_def
      last_split_on first_suffix_find last_chars_rev upper_is_spec strip_is_spec Let_def)

lemma quotes_evaluated:
  "quote_by_spec ''BTC-USDT'' = ''USDT''" "quote_by_spec ''ETHBTC'' = ''BTC''"
  "quote_by_spec ''XYZ'' = ''XYZ''"
  by code_simp+

lemma quotes_normalised:
  "quote_by_spec '' btc-usdt '' = ''USDT''" "quote_by_spec ''ethbtc'' = ''BTC''"
  "quote_by_spec [CHR 0x09, CHR ''x'', CHR ''y'', CHR ''z'', CHR 0x0A] = ''XYZ''"
  "quote_by_spec ''a-b-c'' = ''C''" "quote_by_spec ''ABUSD'' = ''BUSD''"
  "quote_by_spec ''usdtbtc'' = ''BTC''" "quote_by_spec ''xy'' = ''XY''"
  "quote_by_spec ''dogecoin'' = ''OIN''"
  by code_simp+

subsection \<open>trade1\<close>

lemma trade1_frame: "columns trade1 = trade_header" "length (rows trade1) = 1"
  by (simp_all add: trade1_def sheet_def)

lemma trade1_cells:
  "cell_at (rows trade1 ! 0) ''Market'' = Text ''BTC-USDT''"
  "cell_at (rows trade1 ! 0) ''Date'' = Stamp 5"
  "cell_at (rows trade1 ! 0) ''Trade Type'' = Text ''BUY''"
  "cell_at (rows trade1 ! 0) ''Quantity'' = Number 2"
  "cell_at (rows trade1 ! 0) ''Price'' = Number 50000"
  "cell_at (rows trade1 ! 0) ''Total'' = Number 100000"
  "cell_at (rows trade1 ! 0) ''USD_INR'' = Number 83"
  by (simp_all add: trade1_def sheet_def cell_at_def trade_header_def)

lemma trade1_float64: "float64 trade1 = []"
  by (simp add: trade1_def sheet_def trade_header_def cell_at_def float_column_def whole_cell_def
      is_whole_def in_int64_def)

lemma trade1_non_inr: "df_non_inr lib ''Market'' trade1 = [rows trade1 ! 0]"
proof -
  have "\<not> is_inr lib ''Market'' (rows trade1 ! 0)"
    by (simp add: is_inr_def trade1_cells string_defs)
  moreover have "rows trade1 = [rows trade1 ! 0]"
    by (simp add: trade1_def sheet_def)
  ultimately show ?thesis
    unfolding df_non_inr_def by (metis filter.simps)
qed

lemma trade1_mirrored:
  "mirrored lib (col trade_header) trade1 =
     [mirror_row lib ''Market'' ''Trade Type'' ''Quantity'' ''Price'' ''Total'' (Some ''USD_INR'')
        [] [rows trade1 ! 0] (rows trade1 ! 0)]"
  using mirrored_row_by_row[OF trade_header_missing, of lib trade1]
  by (simp add: trade_header_cols trade1_non_inr trade1_float64)

lemma trade1_mirrored_cells:
  "cell_at (mirrored lib (col trade_header) trade1 ! 0) ''Market'' = Text ''USDTINR''"
  "cell_at (mirrored lib (col trade_header) trade1 ! 0) ''Date'' = Stamp 5"
  "cell_at (mirrored lib (col trade_header) trade1 ! 0) ''Trade Type'' = Text ''SELL''"
  "cell_at (mirrored lib (col trade_header) trade1 ! 0) ''Quantity'' = Number 2"
  "cell_at (mirrored lib (col trade_header) trade1 ! 0) ''Price'' = Number 4150000"
  "cell_at (mirrored lib (col trade_header) trade1 ! 0) ''Total'' = Number 8300000"
  "cell_at (mirrored lib (col trade_header) trade1 ! 0) ''USD_INR'' = Number 1"
  by (simp_all add: trade1_mirrored mirror_row_def trade1_cells extract_quote_text quotes_evaluated
      string_defs numeric_defs)

lemma Date_in_trade_header: "''Date'' \<in> set trade_header"
  by (simp add: trade_header_def)

lemma trade1_app:
  "app plain_cells trade1 = Inr (final_df plain_cells (col trade_header) trade1, [Success_complete])"
  by (simp add: app_proceeds trade1_frame trade_header_missing process_mirrors trade_header_cols
      trade1_non_inr)



subsection \<open>Cells of a mirrored row\<close>


lemma mirror_row_unconverted:
  assumes "c \<noteq> ''__quote__''" "c \<noteq> m" "c \<noteq> tt"
  shows "cell_at (mirror_row lib m tt q p t None fl non r) c = cell_at r c"
  using assms by (simp add: mirror_row_def Let_def)

lemma mirror_row_market:
  assumes "m \<noteq> ''__quote__''" "m \<noteq> tt" "m \<noteq> q" "m \<noteq> p" "m \<noteq> t" "\<forall>u. usd = Some u \<longrightarrow> m \<noteq> u"
  shows "cell_at (mirror_row lib m tt q p t usd fl non r) m
           = Text (extract_quote lib (cell_at r m) @ ''INR'')"
  using assms by (cases usd) (simp_all add: mirror_row_def Let_def)

lemma mirrored_nth:
  assumes "missing cs = []" "i < length (df_non_inr lib (the (col cs Market)) df)"
  shows "mirrored lib (col cs) df ! i =
     mirror_row lib (the (col cs Market)) (the (col cs Trade_type)) (the (col cs Quantity))
            (the (col cs Price)) (the (col cs Total)) (col cs Usd_inr)
            (float64 df) (df_non_inr lib (the (col cs Market)) df)
         (df_non_inr lib (the (col cs Market)) df ! i)"
  using assms by (simp add: mirrored_row_by_row)

subsection \<open>The product of two series\<close>


lemma is_whole_of_int [simp]: "is_whole (of_int n)"
  by (simp add: is_whole_def)

lemma is_whole_floor: "is_whole x \<Longrightarrow> of_int \<lfloor>x\<rfloor> = x"
  by (simp add: is_whole_def)






subsection \<open>Rows that are INR\<close>

lemma endswith_append: "endswith (a @ q) q"
  by (simp add: endswith_def)

lemma upper_INR: "upper (a @ ''INR'') = upper a @ ''INR''"
  by (simp add: upper_def upper_char_def is_lower_def)

lemma is_inr_text: "cell_at r m = Text (q @ ''INR'') \<Longrightarrow> is_inr lib m r"
  by (simp add: is_inr_def py_str_def upper_INR endswith_append)

lemma is_inr_cong: "cell_at r' m = cell_at r m \<Longrightarrow> is_inr lib m r' = is_inr lib m r"
  by (simp add: is_inr_def)



lemma mirrored_all_inr:
  assumes "missing cs = []" "r \<in> set (mirrored lib (col cs) df)"
  shows "\<exists>q. cell_at r (the (col cs Market)) = Text (q @ ''INR'')"
proof -
  from assms(1) obtain m d tt q p t where c:
    "col cs Market = Some m" "col cs Date = Some d" "col cs Trade_type = Some tt"
    "col cs Quantity = Some q" "col cs Price = Some p" "col cs Total = Some t"
    by (rule resolved)
  have ne: "m \<noteq> ''__quote__''" "m \<noteq> tt" "m \<noteq> q" "m \<noteq> p" "m \<noteq> t"
    "\<forall>u. col cs Usd_inr = Some u \<longrightarrow> m \<noteq> u"
    using col_not_quote[OF c(1)] col_distinct[OF c(1) c(3)] col_distinct[OF c(1) c(4)]
      col_distinct[OF c(1) c(5)] col_distinct[OF c(1) c(6)] col_distinct[OF c(1)]
    by auto
  from assms(2) obtain r0 where
    "r = mirror_row lib m tt q p t (col cs Usd_inr) (float64 df) (df_non_inr lib m df) r0"
    by (auto simp: mirrored_row_by_row[OF assms(1)] c)
  then show ?thesis
    using mirror_row_market[OF ne, of lib "float64 df" "df_non_inr lib m df" r0] by (simp add: c)
qed

subsection \<open>What the run does to the rows\<close>

lemma length_rows_final:
  "length (rows (final_df lib c df))
     = length (rows df) + length (df_non_inr lib (the (c Market)) df)"
  by (simp add: final_df_def length_mirrored)

lemma columns_final [simp]: "columns (final_df lib c df) = columns df"
  by (simp add: final_df_def)

lemma final_rows_erased:
  "mset (map (\<lambda>r. r(the (c Date) := None)) (rows (final_df lib c df)))
     = mset (map (\<lambda>r. (reindex (columns df) r)(the (c Date) := None)) (rows df @ mirrored lib c df))"
proof -
  have "mset (map (\<lambda>r. r(the (c Date) := None))
          (rows (sort_by_date lib (the (c Date)) (concat_frames df (mirrored lib c df)))))
     = mset (map (\<lambda>r. r(the (c Date) := None)) (rows (concat_frames df (mirrored lib c df))))"
    by (rule mset_sort_by_date) simp
  then show ?thesis
    by (simp add: final_df_def comp_def del: map_append)
qed

lemma second_pass_rows:
  assumes ok: "missing (columns df) = []"
  shows "mset (map (\<lambda>r. r(the (col (columns df) Date) := None))
            (df_non_inr lib (the (col (columns df) Market)) (final_df lib (col (columns df)) df)))
       = mset (map (\<lambda>r. (reindex (columns df) r)(the (col (columns df) Date) := None))
            (df_non_inr lib (the (col (columns df) Market)) df))"
proof -
  let ?cs = "columns df"
  from ok obtain m d where c: "col ?cs Market = Some m" "col ?cs Date = Some d"
    by (rule resolved)
  have md: "m \<noteq> d" using col_distinct[OF c] by simp
  have mcs: "m \<in> set ?cs" using col_token[OF c(1)] by simp
  let ?k = "\<lambda>r::row. r(d := None)"
  let ?Q = "\<lambda>r. \<not> is_inr lib m r"
  let ?M = "mirrored lib (col ?cs) df"
  let ?out = "final_df lib (col ?cs) df"
  have Qk: "?Q (?k r) = ?Q r" for r
    using md by (simp add: is_inr_def)
  have Qre: "?Q (reindex ?cs r) = ?Q r" for r
    using mcs by (simp add: is_inr_def cell_at_reindex)
  have Qk': "?Q \<circ> ?k = ?Q"
    by (rule ext) (simp add: Qk)
  have swap: "map ?k (filter ?Q xs) = filter ?Q (map ?k xs)" for xs
    by (simp only: filter_map Qk')
  have QM: "filter ?Q ?M = []"
  proof -
    have "is_inr lib m r" if "r \<in> set ?M" for r
      using mirrored_all_inr[OF ok that] by (auto simp: c intro: is_inr_text)
    then show ?thesis by (simp add: filter_empty_conv)
  qed
  have "mset (map ?k (rows ?out)) = mset (map (\<lambda>r. (reindex ?cs r)(d := None)) (rows df @ ?M))"
    using final_rows_erased[of "col ?cs" lib df] by (simp add: c)
  then have "filter_mset ?Q (mset (map ?k (rows ?out)))
      = filter_mset ?Q (mset (map (\<lambda>r. (reindex ?cs r)(d := None)) (rows df @ ?M)))"
    by simp
  then have "mset (filter ?Q (map ?k (rows ?out)))
      = mset (filter ?Q (map (\<lambda>r. (reindex ?cs r)(d := None)) (rows df @ ?M)))"
    by (simp only: mset_filter)
  moreover have "?Q \<circ> (\<lambda>r. (reindex ?cs r)(d := None)) = ?Q"
    by (rule ext) (simp add: Qk Qre)
  then have "filter ?Q (map (\<lambda>r. (reindex ?cs r)(d := None)) xs)
      = map (\<lambda>r. (reindex ?cs r)(d := None)) (filter ?Q xs)" for xs
    by (simp only: filter_map)
  ultimately have "mset (map ?k (filter ?Q (rows ?out)))
      = mset (map (\<lambda>r. (reindex ?cs r)(d := None)) (filter ?Q (rows df @ ?M)))"
    by (simp only: swap)
  then show ?thesis
    by (simp add: df_non_inr_def c QM)
qed

lemma second_pass_count:
  assumes "missing (columns df) = []"
  shows "length (df_non_inr lib (the (col (columns df) Market)) (final_df lib (col (columns df)) df))
       = length (df_non_inr lib (the (col (columns df) Market)) df)"
proof -
  have "size (mset (map (\<lambda>r. r(the (col (columns df) Date) := None))
            (df_non_inr lib (the (col (columns df) Market)) (final_df lib (col (columns df)) df))))
       = size (mset (map (\<lambda>r. (reindex (columns df) r)(the (col (columns df) Date) := None))
            (df_non_inr lib (the (col (columns df) Market)) df)))"
    by (simp only: second_pass_rows[OF assms])
  then show ?thesis by simp
qed

lemma never_warns_not_numeric:
  "process lib c df = Inr (out, msgs) \<Longrightarrow> Warning_not_numeric \<notin> set msgs"
  "process lib c df = Inl (ProcessingFailed shown) \<Longrightarrow> Warning_not_numeric \<notin> set shown"
  by (cases "df_non_inr lib (the (c Market)) df = []";
      auto simp: process_early process_mirrors split: option.splits if_splits)+


lemma cells_concat_frames:
  "cells (concat_frames df ms) = map (\<lambda>r. map (cell_at r) (columns df)) (rows df @ ms)"
  by (simp add: cells_def cell_at_reindex del: map_append)

subsection \<open>trade2\<close>

lemma trade2_frame: "columns trade2 = trade_header"
  "rows trade2 = [rows trade2 ! 0, rows trade2 ! 1, rows trade2 ! 2]"
  by (simp_all add: trade2_def sheet_def)

lemma trade2_float64: "float64 trade2 = []"
  by (simp add: trade2_def sheet_def trade_header_def cell_at_def float_column_def whole_cell_def
      is_whole_def in_int64_def)

lemma trade2_cells:
  "cell_at (rows trade2 ! 0) ''Market'' = Text ''BTC-USDT''"
  "cell_at (rows trade2 ! 0) ''Date'' = Stamp 9"
  "cell_at (rows trade2 ! 0) ''Trade Type'' = Text ''BUY''"
  "cell_at (rows trade2 ! 0) ''Quantity'' = Number 2"
  "cell_at (rows trade2 ! 0) ''Price'' = Text ''abc''"
  "cell_at (rows trade2 ! 0) ''Total'' = Number 100000"
  "cell_at (rows trade2 ! 0) ''USD_INR'' = Number 83"
  "cell_at (rows trade2 ! 1) ''Market'' = Text ''ETHINR''"
  "cell_at (rows trade2 ! 1) ''Date'' = Text ''unknown''"
  "cell_at (rows trade2 ! 1) ''Trade Type'' = Text ''sell''"
  "cell_at (rows trade2 ! 1) ''Quantity'' = Number 1"
  "cell_at (rows trade2 ! 1) ''Price'' = Number 200000"
  "cell_at (rows trade2 ! 1) ''Total'' = Number 200000"
  "cell_at (rows trade2 ! 1) ''USD_INR'' = Number 83"
  "cell_at (rows trade2 ! 2) ''Market'' = Text ''BTCINR''"
  "cell_at (rows trade2 ! 2) ''Date'' = Stamp 1"
  "cell_at (rows trade2 ! 2) ''Trade Type'' = Text ''SELL''"
  "cell_at (rows trade2 ! 2) ''Quantity'' = Number 3"
  "cell_at (rows trade2 ! 2) ''Price'' = Number 10"
  "cell_at (rows trade2 ! 2) ''Total'' = Number 30"
  "cell_at (rows trade2 ! 2) ''USD_INR'' = Number 83"
  by (simp_all add: trade2_def sheet_def cell_at_def trade_header_def)

lemma trade2_is_inr:
  "\<not> is_inr lib ''Market'' (rows trade2 ! 0)"
  "is_inr lib ''Market'' (rows trade2 ! 1)"
  "is_inr lib ''Market'' (rows trade2 ! 2)"
  by (simp_all add: is_inr_def trade2_cells string_defs del: One_nat_def)

lemma trade2_non_inr: "df_non_inr lib ''Market'' trade2 = [rows trade2 ! 0]"
proof -
  define a b c where "a = rows trade2 ! 0" and "b = rows trade2 ! 1" and "c = rows trade2 ! 2"
  have r: "rows trade2 = [a, b, c]"
    unfolding a_def b_def c_def by (rule trade2_frame(2))
  have "filter (\<lambda>r. \<not> is_inr lib ''Market'' r) [a, b, c] = [a]"
    using trade2_is_inr[of lib, folded a_def b_def c_def] by simp
  then show ?thesis
    unfolding df_non_inr_def r by (simp add: a_def b_def c_def)
qed

lemma trade2_mirrored:
  "mirrored lib (col trade_header) trade2 =
     [mirror_row lib ''Market'' ''Trade Type'' ''Quantity'' ''Price'' ''Total'' (Some ''USD_INR'')
        [] [rows trade2 ! 0] (rows trade2 ! 0)]"
  using mirrored_row_by_row[OF trade_header_missing, of lib trade2]
  by (simp add: trade_header_cols trade2_non_inr trade2_float64)

lemma trade2_mirrored_cells:
  "cell_at (mirrored plain_cells (col trade_header) trade2 ! 0) ''Market'' = Text ''USDTINR''"
  "cell_at (mirrored plain_cells (col trade_header) trade2 ! 0) ''Date'' = Stamp 9"
  "cell_at (mirrored plain_cells (col trade_header) trade2 ! 0) ''Trade Type'' = Text ''SELL''"
  "cell_at (mirrored plain_cells (col trade_header) trade2 ! 0) ''Quantity'' = Number 2"
  "cell_at (mirrored plain_cells (col trade_header) trade2 ! 0) ''Price'' = Missing"
  "cell_at (mirrored plain_cells (col trade_header) trade2 ! 0) ''Total'' = Number 8300000"
  "cell_at (mirrored plain_cells (col trade_header) trade2 ! 0) ''USD_INR'' = Number 1"
  by (simp_all add: trade2_mirrored mirror_row_def trade2_cells extract_quote_text quotes_evaluated
      string_defs numeric_defs plain_cells_def)

lemma trade2_app:
  "app lib trade2 =
     (if to_excel lib (final_df lib (col trade_header) trade2)
      then Inr (final_df lib (col trade_header) trade2, [Success_complete])
      else Inl (ProcessingFailed []))"
  by (simp add: app_proceeds trade2_frame(1) trade_header_missing process_mirrors trade_header_cols
      trade2_non_inr)

lemma trade2_concat_and_run:
  "cells (concat_frames trade2 (mirrored plain_cells (col trade_header) trade2)) =
     [[Text ''BTC-USDT'', Stamp 9, Text ''BUY'', Number 2, Text ''abc'', Number 100000, Number 83],
      [Text ''ETHINR'', Text ''unknown'', Text ''sell'', Number 1, Number 200000, Number 200000, Number 83],
      [Text ''BTCINR'', Stamp 1, Text ''SELL'', Number 3, Number 10, Number 30, Number 83],
      [Text ''USDTINR'', Stamp 9, Text ''SELL'', Number 2, Missing, Number 8300000, Number 1]]"
  "run_cells plain_cells trade2 =
     Inr ([[Text ''BTCINR'', Stamp 1, Text ''SELL'', Number 3, Number 10, Number 30, Number 83],
           [Text ''BTC-USDT'', Stamp 9, Text ''BUY'', Number 2, Text ''abc'', Number 100000, Number 83],
           [Text ''USDTINR'', Stamp 9, Text ''SELL'', Number 2, Missing, Number 8300000, Number 1],
           [Text ''ETHINR'', Missing, Text ''sell'', Number 1, Number 200000, Number 200000, Number 83]],
          [Success_complete])"
proof -
  define a b c where "a = rows trade2 ! 0" and "b = rows trade2 ! 1" and "c = rows trade2 ! 2"
  define m0 where "m0 = mirrored plain_cells (col trade_header) trade2 ! 0"
  have r: "rows trade2 = [a, b, c]"
    unfolding a_def b_def c_def by (rule trade2_frame(2))
  have m: "mirrored plain_cells (col trade_header) trade2 = [m0]"
    by (simp add: m0_def trade2_mirrored)
  note f = trade2_cells[folded a_def b_def c_def] trade2_mirrored_cells[folded m0_def]
  show "cells (concat_frames trade2 (mirrored plain_cells (col trade_header) trade2)) =
     [[Text ''BTC-USDT'', Stamp 9, Text ''BUY'', Number 2, Text ''abc'', Number 100000, Number 83],
      [Text ''ETHINR'', Text ''unknown'', Text ''sell'', Number 1, Number 200000, Number 200000, Number 83],
      [Text ''BTCINR'', Stamp 1, Text ''SELL'', Number 3, Number 10, Number 30, Number 83],
      [Text ''USDTINR'', Stamp 9, Text ''SELL'', Number 2, Missing, Number 8300000, Number 1]]"
    by (simp only: cells_concat_frames trade2_frame(1) r m) (simp add: trade_header_def f)
  have "cells (final_df plain_cells (col trade_header) trade2)
    = [[Text ''BTCINR'', Stamp 1, Text ''SELL'', Number 3, Number 10, Number 30, Number 83],
           [Text ''BTC-USDT'', Stamp 9, Text ''BUY'', Number 2, Text ''abc'', Number 100000, Number 83],
           [Text ''USDTINR'', Stamp 9, Text ''SELL'', Number 2, Missing, Number 8300000, Number 1],
           [Text ''ETHINR'', Missing, Text ''sell'', Number 1, Number 200000, Number 200000, Number 83]]"
    unfolding final_df_def trade_header_cols option.sel
    by (simp only: cells_run_plain[OF Date_in_trade_header trade2_frame(1)] r m)
       (simp add: trade_header_def f)
  then show "run_cells plain_cells trade2 =
     Inr ([[Text ''BTCINR'', Stamp 1, Text ''SELL'', Number 3, Number 10, Number 30, Number 83],
           [Text ''BTC-USDT'', Stamp 9, Text ''BUY'', Number 2, Text ''abc'', Number 100000, Number 83],
           [Text ''USDTINR'', Stamp 9, Text ''SELL'', Number 2, Missing, Number 8300000, Number 1],
           [Text ''ETHINR'', Missing, Text ''sell'', Number 1, Number 200000, Number 200000, Number 83]],
          [Success_complete])"
    by (simp add: run_cells_def trade2_app)
qed

subsection \<open>trade3 and trade4\<close>

lemma pair_header_cols:
  "col pair_header Market = Some ''Pair''"
  "col pair_header Date = Some ''Date''"
  "col pair_header Trade_type = Some ''Side''"
  "col pair_header Quantity = Some ''Qty''"
  "col pair_header Price = Some ''Rate''"
  "col pair_header Total = Some ''Amount''"
  "col pair_header Usd_inr = None"
  by code_simp+

lemma pair_header_missing: "missing pair_header = []"
  by (simp add: missing_def required_def pair_header_cols)

lemma Date_in_pair_header: "''Date'' \<in> set pair_header"
  by (simp add: pair_header_def)

lemma trade3_frame: "columns trade3 = pair_header" "rows trade3 = [rows trade3 ! 0]"
  by (simp_all add: trade3_def sheet_def)

lemma trade3_cells:
  "cell_at (rows trade3 ! 0) ''Pair'' = Text ''ETHBTC''"
  "cell_at (rows trade3 ! 0) ''Date'' = Stamp 7"
  "cell_at (rows trade3 ! 0) ''Side'' = Text ''sell''"
  "cell_at (rows trade3 ! 0) ''Qty'' = Number 4"
  "cell_at (rows trade3 ! 0) ''Rate'' = Number 20"
  "cell_at (rows trade3 ! 0) ''Amount'' = Number 80"
  by (simp_all add: trade3_def sheet_def cell_at_def pair_header_def)

lemma trade3_non_inr: "df_non_inr lib ''Pair'' trade3 = [rows trade3 ! 0]"
proof -
  define a where "a = rows trade3 ! 0"
  have r: "rows trade3 = [a]" unfolding a_def by (rule trade3_frame(2))
  have "\<not> is_inr lib ''Pair'' a"
    unfolding a_def by (simp add: is_inr_def trade3_cells string_defs)
  then show ?thesis
    unfolding df_non_inr_def r by (simp add: a_def)
qed

lemma trade3_mirrored:
  "mirrored lib (col pair_header) trade3 =
     [mirror_row lib ''Pair'' ''Side'' ''Qty'' ''Rate'' ''Amount'' None (float64 trade3)
        [rows trade3 ! 0] (rows trade3 ! 0)]"
  using mirrored_row_by_row[OF pair_header_missing, of lib trade3]
  by (simp add: pair_header_cols trade3_non_inr)

lemma trade3_mirrored_cells:
  "cell_at (mirrored lib (col pair_header) trade3 ! 0) ''Pair'' = Text ''BTCINR''"
  "cell_at (mirrored lib (col pair_header) trade3 ! 0) ''Date'' = Stamp 7"
  "cell_at (mirrored lib (col pair_header) trade3 ! 0) ''Side'' = Text ''BUY''"
  "cell_at (mirrored lib (col pair_header) trade3 ! 0) ''Qty'' = Number 4"
  "cell_at (mirrored lib (col pair_header) trade3 ! 0) ''Rate'' = Number 20"
  "cell_at (mirrored lib (col pair_header) trade3 ! 0) ''Amount'' = Number 80"
  by (simp_all add: trade3_mirrored mirror_row_def trade3_cells extract_quote_text quotes_evaluated
      string_defs)

lemma trade3_app:
  "app lib trade3 =
     (if to_excel lib (final_df lib (col pair_header) trade3)
      then Inr (final_df lib (col pair_header) trade3, [Warning_no_rate, Success_complete])
      else Inl (ProcessingFailed [Warning_no_rate]))"
  by (simp add: app_proceeds trade3_frame(1) pair_header_missing process_mirrors pair_header_cols
      trade3_non_inr)

lemma trade3_run:
  "run_cells plain_cells trade3 =
     Inr ([[Text ''ETHBTC'', Stamp 7, Text ''sell'', Number 4, Number 20, Number 80],
           [Text ''BTCINR'', Stamp 7, Text ''BUY'', Number 4, Number 20, Number 80]],
          [Warning_no_rate, Success_complete])"
proof -
  define a where "a = rows trade3 ! 0"
  define m0 where "m0 = mirrored plain_cells (col pair_header) trade3 ! 0"
  have r: "rows trade3 = [a]" unfolding a_def by (rule trade3_frame(2))
  have m: "mirrored plain_cells (col pair_header) trade3 = [m0]"
    by (simp add: m0_def trade3_mirrored)
  note f = trade3_cells[folded a_def] trade3_mirrored_cells[of plain_cells, folded m0_def]
  have "cells (final_df plain_cells (col pair_header) trade3)
    = [[Text ''ETHBTC'', Stamp 7, Text ''sell'', Number 4, Number 20, Number 80],
       [Text ''BTCINR'', Stamp 7, Text ''BUY'', Number 4, Number 20, Number 80]]"
    unfolding final_df_def pair_header_cols option.sel
    by (simp only: cells_run_plain[OF Date_in_pair_header trade3_frame(1)] r m)
       (simp add: pair_header_def f)
  then show ?thesis
    by (simp add: run_cells_def trade3_app)
qed

lemma trade4_frame: "columns trade4 = pair_header" "rows trade4 = [rows trade4 ! 0]"
  by (simp_all add: trade4_def sheet_def)

lemma trade4_non_inr: "df_non_inr lib ''Pair'' trade4 = []"
proof -
  define a where "a = rows trade4 ! 0"
  have r: "rows trade4 = [a]" unfolding a_def by (rule trade4_frame(2))
  have "cell_at (rows trade4 ! 0) ''Pair'' = Text ''BTCINR''"
    by (simp add: trade4_def sheet_def cell_at_def pair_header_def)
  then have "is_inr lib ''Pair'' a"
    unfolding a_def by (simp add: is_inr_def string_defs)
  then show ?thesis
    unfolding df_non_inr_def r by simp
qed

lemma trade4_run:
  "run_cells plain_cells trade4 =
     Inr ([[Text ''BTCINR'', Stamp 7, Text ''BUY'', Number 1, Number 4000000, Number 4000000]],
          [Info_nothing_to_mirror])"
proof -
  have "app plain_cells trade4 = Inr (trade4, [Info_nothing_to_mirror])"
    by (simp add: app_proceeds trade4_frame(1) pair_header_missing process_early pair_header_cols
        trade4_non_inr)
  moreover have "cells trade4
      = [[Text ''BTCINR'', Stamp 7, Text ''BUY'', Number 1, Number 4000000, Number 4000000]]"
    by (simp add: cells_def trade4_def sheet_def cell_at_def pair_header_def)
  ultimately show ?thesis by (simp add: run_cells_def)
qed

subsection \<open>trade5 and trade6\<close>











section \<open>Conversion of a mirrored row (C1)\<close>




section \<open>The number of rows (C2)\<close>

text \<open>
  C2. Whenever the application processes a sheet to the end, the frame it hands out has
  as many rows as the sheet plus one for every row of the sheet that it classifies as
  non-INR; when there is no such row the frame is the sheet.
\<close>

theorem row_count:
  assumes "app lib df = Inr (out, msgs)"
  shows "length (rows out)
           = length (rows df) + length (df_non_inr lib (the (col (columns df) Market)) df)
         \<and> (df_non_inr lib (the (col (columns df) Market)) df = [] \<longrightarrow> out = df)"
  using assms by (cases rule: app_Inr_cases) (simp_all add: length_rows_final)

theorem row_count_witness:
  "app plain_cells trade1
     = Inr (final_df plain_cells (col trade_header) trade1, [Success_complete])
   \<and> length (rows trade1) = 1
   \<and> length (df_non_inr plain_cells (the (col (columns trade1) Market)) trade1) = 1
   \<and> length (rows (final_df plain_cells (col trade_header) trade1)) = 2"
proof -
  have n: "length (df_non_inr plain_cells (the (col (columns trade1) Market)) trade1) = 1"
    by (simp add: trade1_frame trade_header_cols trade1_non_inr)
  from row_count[OF trade1_app] n trade1_frame(2) trade1_app show ?thesis by simp
qed


section \<open>Quote extraction (C7)\<close>

text \<open>
  C7. For every market symbol that is ASCII text, \<open>extract_quote\<close> is what the
  specification words: the symbol upper-cased and trimmed, then the text after its last \<open>-\<close>
  if it has one, else the first of USDT, BUSD, USD, ETH, BTC, INR that it ends with, else
  its last three characters. So BTC-USDT gives USDT, ETHBTC gives BTC and XYZ gives XYZ;
  and so do these symbols in lower case and between blanks. The text after the last \<open>-\<close>
  is taken even when there are several, BUSD goes before USD, and a symbol of two
  characters is its own quote.
\<close>

theorem extract_quote_as_specified:
  assumes "ascii symbol"
  shows "extract_quote lib (Text symbol) = quote_by_spec symbol
   \<and> extract_quote lib (Text ''BTC-USDT'') = ''USDT''
   \<and> extract_quote lib (Text ''ETHBTC'') = ''BTC''
   \<and> extract_quote lib (Text ''XYZ'') = ''XYZ''
   \<and> extract_quote lib (Text '' btc-usdt '') = ''USDT''
   \<and> extract_quote lib (Text ''ethbtc'') = ''BTC''
   \<and> extract_quote lib (Text [CHR 0x09, CHR ''x'', CHR ''y'', CHR ''z'', CHR 0x0A]) = ''XYZ''
   \<and> extract_quote lib (Text ''a-b-c'') = ''C''
   \<and> extract_quote lib (Text ''ABUSD'') = ''BUSD''
   \<and> extract_quote lib (Text ''usdtbtc'') = ''BTC''
   \<and> extract_quote lib (Text ''xy'') = ''XY''
   \<and> extract_quote lib (Text ''dogecoin'') = ''OIN''"
  by (simp add: extract_quote_text quotes_evaluated quotes_normalised)

theorem extract_quote_as_specified_witness:
  "ascii '' btc-usdt ''
   \<and> extract_quote plain_cells (Text '' btc-usdt '') = quote_by_spec '' btc-usdt ''
   \<and> quote_by_spec '' btc-usdt '' = ''USDT''"
proof -
  have a: "ascii '' btc-usdt ''" by (simp add: ascii_def)
  from extract_quote_as_specified[OF a, of plain_cells] a quotes_normalised(1)
  show ?thesis by simp
qed

section \<open>Header resolution (C9)\<close>

text \<open>
  C9. The clean name of a column or of a pattern is its normal form: every character
  outside \<open>[0-9a-zA-Z]\<close> turned into the separator, the runs of separators collapsed, the
  separators at the edges trimmed, the letters in lower case. \<open>find_col\<close> binds a role to
  a column exactly when the column name and one of the candidate patterns have the same
  normal form (no substring, no distance), and then to the first of all matches, the
  candidates taken in their priority order and, for one candidate, the columns from left
  to right. A header with such a match for every required role has no missing role, and
  every required role is bound. The examples are names that only the normalisation
  reconciles, a column that holds a candidate as a substring only, and headers with
  several matches.
\<close>

theorem header_resolution_first_match:
  "clean_name name = normalize_spec name
   \<and> find_col cols (Several pats) = first_match cols pats
   \<and> find_col cols (Single pat) = first_match cols [pat]
   \<and> (find_col cols (Several pats) = Some c \<longrightarrow>
        c \<in> set cols \<and> (\<exists>p\<in>set pats. normalize_spec c = normalize_spec p))
   \<and> (find_col cols (Several pats) \<noteq> None \<longleftrightarrow>
        (\<exists>p\<in>set pats. \<exists>c\<in>set cols. normalize_spec c = normalize_spec p))
   \<and> ((\<forall>r\<in>set required. \<exists>p\<in>set (candidates r). \<exists>c\<in>set cols. normalize_spec c = normalize_spec p)
        \<longrightarrow> missing cols = []
            \<and> (\<forall>r\<in>set required. col cols r = first_match cols (candidates r) \<and> col cols r \<noteq> None))
   \<and> clean_name ''  Trade--Type!! '' = ''trade_type''
   \<and> clean_name ''USD/INR rate'' = ''usd_inr_rate''
   \<and> clean_name ''__Total (INR)__'' = ''total_inr''
   \<and> clean_name ''Qty2023'' = ''qty2023''
   \<and> find_col [''Notes'', ''Trade  Type:''] (Several (candidates Trade_type)) = Some ''Trade  Type:''
   \<and> find_col [''Market Price'', ''Price (USD)''] (Several (candidates Price)) = None
   \<and> find_col [''Pair'', ''Market Price'', ''MARKET''] (Several (candidates Market)) = Some ''MARKET''
   \<and> find_col [''SIDE.'', ''Action'', ''side''] (Several (candidates Trade_type)) = Some ''SIDE.''"
proof -
  have bound: "find_pats cols ps \<noteq> None \<longleftrightarrow>
      (\<exists>p\<in>set ps. \<exists>c\<in>set cols. normalize_spec c = normalize_spec p)" for ps
    by (simp add: find_pats_None clean_name_is_spec)
  have c0: "clean_name name = normalize_spec name"
    by (rule clean_name_is_spec)
  have c1: "find_col cols (Several pats) = first_match cols pats"
    by (simp add: find_pats_first_match)
  have c2: "find_col cols (Single pat) = first_match cols [pat]"
    by (simp add: find_pats_first_match)
  have c3: "find_col cols (Several pats) = Some c \<longrightarrow>
        c \<in> set cols \<and> (\<exists>p\<in>set pats. normalize_spec c = normalize_spec p)"
    using find_pats_Some[of cols pats c] by (simp add: clean_name_is_spec)
  have c4: "find_col cols (Several pats) \<noteq> None \<longleftrightarrow>
        (\<exists>p\<in>set pats. \<exists>c\<in>set cols. normalize_spec c = normalize_spec p)"
    using bound[of pats] by simp
  have c5: "(\<forall>r\<in>set required. \<exists>p\<in>set (candidates r). \<exists>c\<in>set cols. normalize_spec c = normalize_spec p)
        \<longrightarrow> missing cols = []
            \<and> (\<forall>r\<in>set required. col cols r = first_match cols (candidates r) \<and> col cols r \<noteq> None)"
  proof
    assume h: "\<forall>r\<in>set required. \<exists>p\<in>set (candidates r). \<exists>c\<in>set cols. normalize_spec c = normalize_spec p"
    have all: "\<forall>r\<in>set required. col cols r \<noteq> None"
    proof
      fix r assume "r \<in> set required"
      with h have "\<exists>p\<in>set (candidates r). \<exists>c\<in>set cols. normalize_spec c = normalize_spec p" by blast
      then have "find_pats cols (candidates r) \<noteq> None" by (simp only: bound)
      then show "col cols r \<noteq> None" by (simp add: col_def)
    qed
    then have m: "missing cols = []" by (simp add: missing_Nil)
    have fm: "\<forall>r\<in>set required. col cols r = first_match cols (candidates r) \<and> col cols r \<noteq> None"
    proof
      fix r assume r: "r \<in> set required"
      have "col cols r = first_match cols (candidates r)"
        by (simp add: col_def find_pats_first_match)
      with all r show "col cols r = first_match cols (candidates r) \<and> col cols r \<noteq> None"
        by blast
    qed
    show "missing cols = []
            \<and> (\<forall>r\<in>set required. col cols r = first_match cols (candidates r) \<and> col cols r \<noteq> None)"
      by (intro conjI) (fact m fm)+
  qed
  have e1: "clean_name ''  Trade--Type!! '' = ''trade_type''" by code_simp
  have e2: "clean_name ''USD/INR rate'' = ''usd_inr_rate''" by code_simp
  have e3: "clean_name ''__Total (INR)__'' = ''total_inr''" by code_simp
  have e4: "clean_name ''Qty2023'' = ''qty2023''" by code_simp
  have e5: "find_col [''Notes'', ''Trade  Type:''] (Several (candidates Trade_type)) = Some ''Trade  Type:''"
    by code_simp
  have e6: "find_col [''Market Price'', ''Price (USD)''] (Several (candidates Price)) = None"
    by code_simp
  have e7: "find_col [''Pair'', ''Market Price'', ''MARKET''] (Several (candidates Market)) = Some ''MARKET''"
    by code_simp
  have e8: "find_col [''SIDE.'', ''Action'', ''side''] (Several (candidates Trade_type)) = Some ''SIDE.''"
    by code_simp
  show ?thesis by (intro conjI) (fact c0 c1 c2 c3 c4 c5 e1 e2 e3 e4 e5 e6 e7 e8)+
qed

lemma punctuated_header_cols:
  "map (col punctuated_header) [Market, Date, Trade_type, Quantity, Price, Total, Usd_inr]
     = [Some ''  Market '', Some ''Trade-Date'', Some ''Trade Type:'', Some ''QTY.'',
        Some ''Final  Price'', Some ''Gross_Amount'', Some ''USD/INR rate'']"
  by code_simp

lemma punctuated_header_names:
  "map normalize_spec punctuated_header
     = [''market'', ''trade_date'', ''trade_type'', ''qty'', ''final_price'', ''gross_amount'',
        ''usd_inr_rate'']"
  by code_simp

theorem header_resolution_first_match_witness:
  "list_all (\<lambda>r. list_ex (\<lambda>p. list_ex (\<lambda>c. normalize_spec c = normalize_spec p) punctuated_header)
                (candidates r)) required
   \<and> map normalize_spec punctuated_header
       = [''market'', ''trade_date'', ''trade_type'', ''qty'', ''final_price'', ''gross_amount'',
          ''usd_inr_rate'']
   \<and> missing punctuated_header = []
   \<and> map (col punctuated_header) [Market, Date, Trade_type, Quantity, Price, Total, Usd_inr]
       = [Some ''  Market '', Some ''Trade-Date'', Some ''Trade Type:'', Some ''QTY.'',
          Some ''Final  Price'', Some ''Gross_Amount'', Some ''USD/INR rate'']
   \<and> first_match punctuated_header (candidates Price) = Some ''Final  Price''"
proof -
  have h: "\<forall>r\<in>set required. \<exists>p\<in>set (candidates r). \<exists>c\<in>set punctuated_header.
      normalize_spec c = normalize_spec p"
  proof
    fix r assume "r \<in> set required"
    then have "find_pats punctuated_header (candidates r) \<noteq> None"
      using punctuated_header_cols by (auto simp: required_def col_def)
    then show "\<exists>p\<in>set (candidates r). \<exists>c\<in>set punctuated_header. normalize_spec c = normalize_spec p"
      by (simp add: find_pats_None clean_name_is_spec)
  qed
  then have hl: "list_all (\<lambda>r. list_ex (\<lambda>p. list_ex (\<lambda>c. normalize_spec c = normalize_spec p)
      punctuated_header) (candidates r)) required"
    by (simp add: list_all_iff list_ex_iff)
  note t = header_resolution_first_match[of "[]" punctuated_header "candidates Price" "[]" "[]"]
  from t h have m: "missing punctuated_header = []" by blast
  from t have "find_col punctuated_header (Several (candidates Price))
      = first_match punctuated_header (candidates Price)" by blast
  moreover have "find_col punctuated_header (Several (candidates Price)) = Some ''Final  Price''"
    using punctuated_header_cols by (simp add: col_def)
  ultimately have f: "first_match punctuated_header (candidates Price) = Some ''Final  Price''"
    by simp
  show ?thesis by (intro conjI) (fact hl punctuated_header_names m punctuated_header_cols f)+
qed

section \<open>Missing required columns (C8)\<close>

lemma role_name_inj: "role_name r = role_name r' \<longleftrightarrow> r = r'"
  by (cases r; cases r'; simp)

lemma Usd_inr_not_required: "Usd_inr \<notin> set required"
  by (simp add: required_def)

text \<open>
  C8. When a required role has no column the application stops before it processes
  anything, with one error that names every required role without a column, in the order
  market, date, trade_type, quantity, price, total; when every required role has a column
  it does not stop there but goes on to process the sheet, whether or not there is a column
  for the optional role usd_inr, which is never named in the error.
\<close>

theorem missing_required_columns_reported:
  "(missing (columns df) \<noteq> [] \<longrightarrow>
       app lib df = Inl (MissingRequiredColumns (map role_name (missing (columns df)))))
   \<and> (\<forall>r. role_name r \<in> set (map role_name (missing (columns df)))
            \<longleftrightarrow> r \<in> set required \<and> col (columns df) r = None)
   \<and> missing (columns df) = filter (\<lambda>r. col (columns df) r = None)
        [Market, Date, Trade_type, Quantity, Price, Total]
   \<and> role_name Usd_inr \<notin> set (map role_name (missing (columns df)))
   \<and> ((\<forall>r\<in>set required. col (columns df) r \<noteq> None) \<longrightarrow>
        app lib df = process lib (col (columns df)) df
        \<and> (\<forall>names. app lib df \<noteq> Inl (MissingRequiredColumns names)))"
proof -
  have c1: "missing (columns df) \<noteq> [] \<longrightarrow>
       app lib df = Inl (MissingRequiredColumns (map role_name (missing (columns df))))"
    by (simp add: app_def)
  have c2: "\<forall>r. role_name r \<in> set (map role_name (missing (columns df)))
      \<longleftrightarrow> r \<in> set required \<and> col (columns df) r = None"
    by (auto simp: missing_def role_name_inj)
  have c3: "missing (columns df) = filter (\<lambda>r. col (columns df) r = None)
        [Market, Date, Trade_type, Quantity, Price, Total]"
    by (simp add: missing_def required_def)
  have c4: "role_name Usd_inr \<notin> set (map role_name (missing (columns df)))"
    using c2 Usd_inr_not_required by blast
  have c5: "(\<forall>r\<in>set required. col (columns df) r \<noteq> None) \<longrightarrow>
        app lib df = process lib (col (columns df)) df
        \<and> (\<forall>names. app lib df \<noteq> Inl (MissingRequiredColumns names))"
  proof
    assume "\<forall>r\<in>set required. col (columns df) r \<noteq> None"
    then have "missing (columns df) = []" by (simp add: missing_Nil)
    then have "app lib df = process lib (col (columns df)) df" by (rule app_proceeds)
    then show "app lib df = process lib (col (columns df)) df
        \<and> (\<forall>names. app lib df \<noteq> Inl (MissingRequiredColumns names))"
      by (simp add: process_not_missing)
  qed
  show ?thesis by (intro conjI) (fact c1 c2 c3 c4 c5)+
qed

theorem missing_required_columns_reported_witness:
  "missing (columns (sheet [''Market'', ''Date'', ''Side'', ''Amount''] [])) \<noteq> []
   \<and> app plain_cells (sheet [''Market'', ''Date'', ''Side'', ''Amount''] [])
       = Inl (MissingRequiredColumns [''quantity'', ''price''])
   \<and> error_text (MissingRequiredColumns [''quantity'', ''price''])
       = ''Required column(s) missing: quantity, price''
   \<and> map (col (columns (sheet [''Pair'', ''Date'', ''Side'', ''Qty'', ''Rate'', ''Amount''] [])))
         [Market, Date, Trade_type, Quantity, Price, Total, Usd_inr]
       = [Some ''Pair'', Some ''Date'', Some ''Side'', Some ''Qty'', Some ''Rate'', Some ''Amount'', None]
   \<and> app plain_cells (sheet [''Pair'', ''Date'', ''Side'', ''Qty'', ''Rate'', ''Amount''] [])
       = Inr (sheet [''Pair'', ''Date'', ''Side'', ''Qty'', ''Rate'', ''Amount''] [],
              [Info_nothing_to_mirror])"
proof -
  let ?A = "sheet [''Market'', ''Date'', ''Side'', ''Amount''] []"
  let ?B = "sheet [''Pair'', ''Date'', ''Side'', ''Qty'', ''Rate'', ''Amount''] []"
  have m0: "missing [''Market'', ''Date'', ''Side'', ''Amount''] = [Quantity, Price]"
    by code_simp
  have c: "map (col [''Pair'', ''Date'', ''Side'', ''Qty'', ''Rate'', ''Amount''])
      [Market, Date, Trade_type, Quantity, Price, Total, Usd_inr]
    = [Some ''Pair'', Some ''Date'', Some ''Side'', Some ''Qty'', Some ''Rate'', Some ''Amount'', None]"
    by code_simp
  have m: "missing (columns ?A) = [Quantity, Price]"
    using m0 by (simp add: sheet_def)
  then have ne: "missing (columns ?A) \<noteq> []" by simp
  have "missing (columns ?A) \<noteq> [] \<longrightarrow>
       app plain_cells ?A = Inl (MissingRequiredColumns (map role_name (missing (columns ?A))))"
    using missing_required_columns_reported[of ?A plain_cells] by (rule conjunct1)
  with ne have "app plain_cells ?A = Inl (MissingRequiredColumns (map role_name (missing (columns ?A))))"
    by (rule rev_mp)
  then have e: "app plain_cells ?A = Inl (MissingRequiredColumns [''quantity'', ''price''])"
    by (simp only: m list.map role_name.simps)
  have t: "error_text (MissingRequiredColumns [''quantity'', ''price''])
       = ''Required column(s) missing: quantity, price''"
    by (simp add: error_text_def)
  have cB: "\<forall>r\<in>set required. col (columns ?B) r \<noteq> None"
    using c by (simp add: sheet_def required_def)
  have uB: "map (col (columns ?B)) [Market, Date, Trade_type, Quantity, Price, Total, Usd_inr]
       = [Some ''Pair'', Some ''Date'', Some ''Side'', Some ''Qty'', Some ''Rate'', Some ''Amount'', None]"
    using c by (simp add: sheet_def)
  have "(\<forall>r\<in>set required. col (columns ?B) r \<noteq> None) \<longrightarrow>
        app plain_cells ?B = process plain_cells (col (columns ?B)) ?B
        \<and> (\<forall>names. app plain_cells ?B \<noteq> Inl (MissingRequiredColumns names))"
    using missing_required_columns_reported[of ?B plain_cells]
    by (rule conjunct2[THEN conjunct2, THEN conjunct2, THEN conjunct2])
  with cB have "app plain_cells ?B = process plain_cells (col (columns ?B)) ?B"
    by blast
  moreover have "df_non_inr plain_cells (the (col (columns ?B) Market)) ?B = []"
    by (simp add: df_non_inr_def sheet_def)
  ultimately have r: "app plain_cells ?B = Inr (?B, [Info_nothing_to_mirror])"
    by (simp add: process_early)
  show ?thesis by (intro conjI) (fact ne e t uB r)+
qed


section \<open>Rows that are already quoted in INR (C3)\<close>

lemma untrimmed_symbol:
  "endswith (strip (upper ''BTCINR '')) ''INR''"
  "\<not> endswith (upper ''BTCINR '') ''INR''"
  "quote_by_spec ''BTCINR '' = ''INR''"
  by code_simp+






section \<open>Sorting by date (C4)\<close>

text \<open>
  C4, as stated, fails: in \<open>trade2\<close> the date of the row ETHINR does not parse, and the
  frame handed out is not in the order of the concatenation: the rows with a date are
  sorted by it and the row without one comes last.
\<close>

theorem unparsed_date_still_sorted:
  "to_datetime plain_cells [Stamp 9, Text ''unknown'', Stamp 1, Stamp 9]
     = Some [Some 9, None, Some 1, Some 9]
   \<and> cells (concat_frames trade2 (mirrored plain_cells (col trade_header) trade2)) =
       [[Text ''BTC-USDT'', Stamp 9, Text ''BUY'', Number 2, Text ''abc'', Number 100000, Number 83],
        [Text ''ETHINR'', Text ''unknown'', Text ''sell'', Number 1, Number 200000, Number 200000, Number 83],
        [Text ''BTCINR'', Stamp 1, Text ''SELL'', Number 3, Number 10, Number 30, Number 83],
        [Text ''USDTINR'', Stamp 9, Text ''SELL'', Number 2, Missing, Number 8300000, Number 1]]
   \<and> run_cells plain_cells trade2 =
       Inr ([[Text ''BTCINR'', Stamp 1, Text ''SELL'', Number 3, Number 10, Number 30, Number 83],
             [Text ''BTC-USDT'', Stamp 9, Text ''BUY'', Number 2, Text ''abc'', Number 100000, Number 83],
             [Text ''USDTINR'', Stamp 9, Text ''SELL'', Number 2, Missing, Number 8300000, Number 1],
             [Text ''ETHINR'', Missing, Text ''sell'', Number 1, Number 200000, Number 200000, Number 83]],
            [Success_complete])"
proof -
  have d: "to_datetime plain_cells [Stamp 9, Text ''unknown'', Stamp 1, Stamp 9]
     = Some [Some 9, None, Some 1, Some 9]"
    by (simp add: plain_cells_def)
  show ?thesis
    by (intro conjI) (fact d trade2_concat_and_run)+
qed

text \<open>
  C4, as the code has it. When rows are mirrored, the date column of the concatenation is
  converted. If the conversion returns, every row gets its converted date, missing when
  it did not parse, and the rows are sorted: the rows with a date in ascending order of
  it, then the rows without one, in the order of the concatenation. Only if the conversion
  raises (or returns a column of another length) is the concatenation handed out as it is.
\<close>

theorem date_sort:
  assumes "app lib df = Inr (out, msgs)"
    and "df_non_inr lib (the (col (columns df) Market)) df \<noteq> []"
  shows "let d = the (col (columns df) Date);
             F = concat_frames df (mirrored lib (col (columns df)) df);
             D = map (\<lambda>r. cell_at r d) (rows F)
         in (\<forall>ks. to_datetime lib D = Some ks \<and> length ks = length D \<longrightarrow>
                mset (rows out) = mset (map2 (\<lambda>r k. r(d \<mapsto> stamp_cell k)) (rows F) ks)
                \<and> (\<exists>ts n. map (date_key d) (rows out) = map Some ts @ replicate n None \<and> sorted ts)
                \<and> filter (\<lambda>r. date_key d r = None) (rows out)
                    = filter (\<lambda>r. date_key d r = None) (map2 (\<lambda>r k. r(d \<mapsto> stamp_cell k)) (rows F) ks))
            \<and> (to_datetime lib D = None \<longrightarrow> out = F)
            \<and> (\<forall>ks. to_datetime lib D = Some ks \<and> length ks \<noteq> length D \<longrightarrow> out = F)"
proof -
  let ?d = "the (col (columns df) Date)"
  let ?F = "concat_frames df (mirrored lib (col (columns df)) df)"
  let ?D = "map (\<lambda>r. cell_at r ?d) (rows ?F)"
  have out: "out = sort_by_date lib ?d ?F"
    using assms(1)
  proof (cases rule: app_Inr_cases)
    case early
    with assms(2) show ?thesis by simp
  next
    case mirrors
    then show ?thesis by (simp add: final_df_def)
  qed
  have a: "mset (rows out) = mset (map2 (\<lambda>r k. r(?d \<mapsto> stamp_cell k)) (rows ?F) ks)
      \<and> (\<exists>ts n. map (date_key ?d) (rows out) = map Some ts @ replicate n None \<and> sorted ts)
      \<and> filter (\<lambda>r. date_key ?d r = None) (rows out)
          = filter (\<lambda>r. date_key ?d r = None) (map2 (\<lambda>r k. r(?d \<mapsto> stamp_cell k)) (rows ?F) ks)"
    if "to_datetime lib ?D = Some ks \<and> length ks = length ?D" for ks
  proof -
    from that have "to_datetime lib ?D = Some ks" "length ks = length (rows ?F)"
      by (simp_all del: rows_concat_frames)
    then have "rows out = sort_values ?d (map2 (\<lambda>r k. r(?d \<mapsto> stamp_cell k)) (rows ?F) ks)"
      unfolding out by (simp only: sort_by_date_sorts) simp
    then show ?thesis
      by (simp only: mset_sort_values undated_sort_values keys_sort_values simp_thms)
  qed
  have b: "out = ?F" if "to_datetime lib ?D = None"
    unfolding out using that by (rule sort_by_date_raises)
  have c: "out = ?F" if "to_datetime lib ?D = Some ks \<and> length ks \<noteq> length ?D" for ks
  proof -
    from that have "to_datetime lib ?D = Some ks" "length ks \<noteq> length (rows ?F)"
      by (simp_all del: rows_concat_frames)
    then show ?thesis unfolding out by (rule sort_by_date_bad_length)
  qed
  from a b c show ?thesis unfolding Let_def by blast
qed

theorem date_sort_witness:
  "app plain_cells trade2
     = Inr (final_df plain_cells (col trade_header) trade2, [Success_complete])
   \<and> df_non_inr plain_cells (the (col (columns trade2) Market)) trade2 \<noteq> []
   \<and> (\<exists>ts n. map (date_key ''Date'') (rows (final_df plain_cells (col trade_header) trade2))
               = map Some ts @ replicate n None \<and> sorted ts)
   \<and> app raising trade2
     = Inr (final_df raising (col trade_header) trade2, [Success_complete])
   \<and> df_non_inr raising (the (col (columns trade2) Market)) trade2 \<noteq> []
   \<and> final_df raising (col trade_header) trade2
       = concat_frames trade2 (mirrored raising (col trade_header) trade2)"
proof -
  have a: "app plain_cells trade2
     = Inr (final_df plain_cells (col trade_header) trade2, [Success_complete])"
    by (simp add: trade2_app)
  have a': "app raising trade2
     = Inr (final_df raising (col trade_header) trade2, [Success_complete])"
    by (simp add: trade2_app)
  have n: "df_non_inr lib (the (col (columns trade2) Market)) trade2 \<noteq> []" for lib
    by (simp add: trade2_frame(1) trade_header_cols trade2_non_inr)
  have dt: "the (col (columns trade2) Date) = ''Date''"
    by (simp add: trade2_frame(1) trade_header_cols)
  let ?d = "the (col (columns trade2) Date)"
  let ?F = "\<lambda>lib. concat_frames trade2 (mirrored lib (col (columns trade2)) trade2)"
  let ?D = "\<lambda>lib. map (\<lambda>r. cell_at r ?d) (rows (?F lib))"
  let ?ks = "map (\<lambda>c. case c of Stamp t \<Rightarrow> Some t | _ \<Rightarrow> None) (?D plain_cells)"
  have p: "to_datetime plain_cells (?D plain_cells) = Some ?ks \<and> length ?ks = length (?D plain_cells)"
    by (simp add: plain_cells_def)
  have r: "to_datetime raising (?D raising) = None"
    by (simp add: raising_def)
  from date_sort[OF a n, unfolded Let_def, THEN conjunct1, rule_format, OF p]
  have "\<exists>ts n. map (date_key ?d) (rows (final_df plain_cells (col trade_header) trade2))
               = map Some ts @ replicate n None \<and> sorted ts"
    by (elim conjE)
  then have s: "\<exists>ts n. map (date_key ''Date'') (rows (final_df plain_cells (col trade_header) trade2))
               = map Some ts @ replicate n None \<and> sorted ts"
    by (simp only: dt)
  from date_sort[OF a' n, unfolded Let_def, THEN conjunct2, THEN conjunct1, rule_format, OF r]
  have u: "final_df raising (col trade_header) trade2
       = concat_frames trade2 (mirrored raising (col trade_header) trade2)"
    by (simp only: trade2_frame(1))
  show ?thesis by (intro conjI) (fact a a' n s u)+
qed

section \<open>Values that are no numbers (C5)\<close>

text \<open>
  C5. The sheet \<open>trade2\<close> has a rate column and, in its row BTC-USDT, a price that is no
  number. The run goes through, the mirrored row has a missing price, and the only message
  is the one of success: the warning about values that are no numbers is not among them.
\<close>

theorem non_numeric_price_no_warning:
  "col (columns trade2) Usd_inr = Some ''USD_INR''
   \<and> cell_at (rows trade2 ! 0) ''Price'' = Text ''abc''
   \<and> to_numeric plain_cells (Text ''abc'') = None
   \<and> run_cells plain_cells trade2 =
       Inr ([[Text ''BTCINR'', Stamp 1, Text ''SELL'', Number 3, Number 10, Number 30, Number 83],
             [Text ''BTC-USDT'', Stamp 9, Text ''BUY'', Number 2, Text ''abc'', Number 100000, Number 83],
             [Text ''USDTINR'', Stamp 9, Text ''SELL'', Number 2, Missing, Number 8300000, Number 1],
             [Text ''ETHINR'', Missing, Text ''sell'', Number 1, Number 200000, Number 200000, Number 83]],
            [Success_complete])"
proof -
  have a: "col (columns trade2) Usd_inr = Some ''USD_INR''"
    by (simp add: trade2_frame(1) trade_header_cols)
  have b: "to_numeric plain_cells (Text ''abc'') = None"
    by (simp add: to_numeric_def plain_cells_def)
  show ?thesis
    by (intro conjI) (fact a b trade2_cells(5) trade2_concat_and_run(2))+
qed

section \<open>A sheet with no rate column (C6)\<close>

text \<open>
  C6, as stated, fails: \<open>trade4\<close> has no rate column and INR pairs only; the run ends
  at the early exit with the note that nothing is to mirror, and no warning.
\<close>

theorem no_rate_no_mirror_no_warning:
  "col (columns trade4) Usd_inr = None
   \<and> run_cells plain_cells trade4 =
       Inr ([[Text ''BTCINR'', Stamp 7, Text ''BUY'', Number 1, Number 4000000, Number 4000000]],
            [Info_nothing_to_mirror])"
  by (simp add: trade4_frame(1) pair_header_cols trade4_run)

text \<open>
  C6, as the code has it. With no rate column and at least one non-INR row, every mirrored
  row has the price and the total of the row it mirrors, and the warning that there is no
  rate column is shown. If the workbook can then be written, the run goes through with
  that warning and the message of success, and the frame handed out is, up to the order of
  its rows and their date column, the sheet followed by the mirrored rows. If writing it
  raises, the run ends with the error of the processing after that warning and hands
  nothing out.
\<close>

theorem no_rate_column:
  assumes "missing (columns df) = []"
    and "col (columns df) Usd_inr = None"
    and "df_non_inr lib (the (col (columns df) Market)) df \<noteq> []"
  shows "(to_excel lib (final_df lib (col (columns df)) df) \<longrightarrow>
            app lib df = Inr (final_df lib (col (columns df)) df, [Warning_no_rate, Success_complete]))
     \<and> (\<not> to_excel lib (final_df lib (col (columns df)) df) \<longrightarrow>
            app lib df = Inl (ProcessingFailed [Warning_no_rate]))
     \<and> mset (map (\<lambda>r. r(the (col (columns df) Date) := None))
              (rows (final_df lib (col (columns df)) df)))
         = mset (map (\<lambda>r. (reindex (columns df) r)(the (col (columns df) Date) := None))
                  (rows df @ mirrored lib (col (columns df)) df))
     \<and> length (mirrored lib (col (columns df)) df)
         = length (df_non_inr lib (the (col (columns df) Market)) df)
     \<and> (\<forall>i < length (df_non_inr lib (the (col (columns df) Market)) df).
           cell_at (mirrored lib (col (columns df)) df ! i) (the (col (columns df) Price))
             = cell_at (df_non_inr lib (the (col (columns df) Market)) df ! i) (the (col (columns df) Price))
         \<and> cell_at (mirrored lib (col (columns df)) df ! i) (the (col (columns df) Total))
             = cell_at (df_non_inr lib (the (col (columns df) Market)) df ! i) (the (col (columns df) Total)))"
proof -
  let ?cs = "columns df"
  let ?out = "final_df lib (col ?cs) df"
  from assms(1) obtain m d tt q p t where c:
    "col ?cs Market = Some m" "col ?cs Date = Some d" "col ?cs Trade_type = Some tt"
    "col ?cs Quantity = Some q" "col ?cs Price = Some p" "col ?cs Total = Some t"
    by (rule resolved)
  have ne: "p \<noteq> ''__quote__''" "p \<noteq> m" "p \<noteq> tt" "t \<noteq> ''__quote__''" "t \<noteq> m" "t \<noteq> tt"
    using col_not_quote[OF c(5)] col_distinct[OF c(5) c(1)] col_distinct[OF c(5) c(3)]
      col_not_quote[OF c(6)] col_distinct[OF c(6) c(1)] col_distinct[OF c(6) c(3)]
    by simp_all
  have a: "to_excel lib ?out \<longrightarrow> app lib df = Inr (?out, [Warning_no_rate, Success_complete])"
    using assms by (simp add: app_proceeds process_mirrors)
  have a': "\<not> to_excel lib ?out \<longrightarrow> app lib df = Inl (ProcessingFailed [Warning_no_rate])"
    using assms by (simp add: app_proceeds process_mirrors)
  have b: "mset (map (\<lambda>r. r(the (col ?cs Date) := None)) (rows ?out))
         = mset (map (\<lambda>r. (reindex ?cs r)(the (col ?cs Date) := None))
                  (rows df @ mirrored lib (col ?cs) df))"
    by (rule final_rows_erased)
  have l: "length (mirrored lib (col ?cs) df) = length (df_non_inr lib (the (col ?cs Market)) df)"
    by (rule length_mirrored)
  have e: "\<forall>i < length (df_non_inr lib (the (col ?cs Market)) df).
           cell_at (mirrored lib (col ?cs) df ! i) (the (col ?cs Price))
             = cell_at (df_non_inr lib (the (col ?cs Market)) df ! i) (the (col ?cs Price))
         \<and> cell_at (mirrored lib (col ?cs) df ! i) (the (col ?cs Total))
             = cell_at (df_non_inr lib (the (col ?cs Market)) df ! i) (the (col ?cs Total))"
  proof (intro allI impI)
    fix i assume i: "i < length (df_non_inr lib (the (col ?cs Market)) df)"
    show "cell_at (mirrored lib (col ?cs) df ! i) (the (col ?cs Price))
             = cell_at (df_non_inr lib (the (col ?cs Market)) df ! i) (the (col ?cs Price))
         \<and> cell_at (mirrored lib (col ?cs) df ! i) (the (col ?cs Total))
             = cell_at (df_non_inr lib (the (col ?cs Market)) df ! i) (the (col ?cs Total))"
      using mirror_row_unconverted[OF ne(1,2,3)] mirror_row_unconverted[OF ne(4,5,6)]
      by (simp add: mirrored_nth[OF assms(1) i] c assms(2))
  qed
  show ?thesis by (intro conjI) (fact a a' b l e)+
qed

theorem no_rate_column_witness:
  "missing (columns trade3) = []
   \<and> col (columns trade3) Usd_inr = None
   \<and> df_non_inr plain_cells (the (col (columns trade3) Market)) trade3 \<noteq> []
   \<and> to_excel plain_cells (final_df plain_cells (col (columns trade3)) trade3)
   \<and> app plain_cells trade3
       = Inr (final_df plain_cells (col (columns trade3)) trade3, [Warning_no_rate, Success_complete])
   \<and> cell_at (mirrored plain_cells (col (columns trade3)) trade3 ! 0) ''Rate'' = Number 20
   \<and> cell_at (mirrored plain_cells (col (columns trade3)) trade3 ! 0) ''Amount'' = Number 80
   \<and> run_cells plain_cells trade3 =
       Inr ([[Text ''ETHBTC'', Stamp 7, Text ''sell'', Number 4, Number 20, Number 80],
             [Text ''BTCINR'', Stamp 7, Text ''BUY'', Number 4, Number 20, Number 80]],
            [Warning_no_rate, Success_complete])
   \<and> df_non_inr unwritable (the (col (columns trade3) Market)) trade3 \<noteq> []
   \<and> \<not> to_excel unwritable (final_df unwritable (col (columns trade3)) trade3)
   \<and> app unwritable trade3 = Inl (ProcessingFailed [Warning_no_rate])
   \<and> error_text (ProcessingFailed [Warning_no_rate]) = ''An error occurred while processing the file.''"
proof -
  have a: "missing (columns trade3) = []" by (simp add: trade3_frame(1) pair_header_missing)
  have b: "col (columns trade3) Usd_inr = None" by (simp add: trade3_frame(1) pair_header_cols)
  have c: "df_non_inr lib (the (col (columns trade3) Market)) trade3 \<noteq> []" for lib
    by (simp add: trade3_frame(1) pair_header_cols trade3_non_inr)
  have i: "0 < length (df_non_inr plain_cells (the (col (columns trade3) Market)) trade3)"
    by (simp add: trade3_frame(1) pair_header_cols trade3_non_inr)
  have w: "to_excel plain_cells (final_df plain_cells (col (columns trade3)) trade3)"
    by simp
  have w': "\<not> to_excel unwritable (final_df unwritable (col (columns trade3)) trade3)"
    by simp
  note t = no_rate_column[OF a b c, of plain_cells]
  note t' = no_rate_column[OF a b c, of unwritable]
  from t w have o: "app plain_cells trade3
       = Inr (final_df plain_cells (col (columns trade3)) trade3, [Warning_no_rate, Success_complete])"
    by blast
  from t' w' have o': "app unwritable trade3 = Inl (ProcessingFailed [Warning_no_rate])"
    by blast
  from t have e: "\<forall>i < length (df_non_inr plain_cells (the (col (columns trade3) Market)) trade3).
           cell_at (mirrored plain_cells (col (columns trade3)) trade3 ! i) (the (col (columns trade3) Price))
             = cell_at (df_non_inr plain_cells (the (col (columns trade3) Market)) trade3 ! i)
                 (the (col (columns trade3) Price))
         \<and> cell_at (mirrored plain_cells (col (columns trade3)) trade3 ! i) (the (col (columns trade3) Total))
             = cell_at (df_non_inr plain_cells (the (col (columns trade3) Market)) trade3 ! i)
                 (the (col (columns trade3) Total))"
    by blast
  from e[rule_format, OF i]
  have f: "cell_at (mirrored plain_cells (col (columns trade3)) trade3 ! 0) ''Rate'' = Number 20"
    and g: "cell_at (mirrored plain_cells (col (columns trade3)) trade3 ! 0) ''Amount'' = Number 80"
    by (simp_all add: trade3_frame(1) pair_header_cols trade3_non_inr trade3_cells)
  have x: "error_text (ProcessingFailed [Warning_no_rate]) = ''An error occurred while processing the file.''"
    by (simp add: error_text_def)
  show ?thesis by (intro conjI) (fact a b c w o f g trade3_run w' o' x)+
qed

section \<open>Mirrored rows are INR rows (C10)\<close>

text \<open>
  C10, as stated, fails: the frame that the run on \<open>trade1\<close> hands out still holds the
  row BTC-USDT, so that a second run on that frame mirrors it again: one more mirrored row,
  three rows in all.
\<close>

theorem second_run_mirrors_again:
  "app plain_cells trade1 = Inr (final_df plain_cells (col trade_header) trade1, [Success_complete])
   \<and> length (rows (final_df plain_cells (col trade_header) trade1)) = 2
   \<and> app plain_cells (final_df plain_cells (col trade_header) trade1)
       = Inr (final_df plain_cells (col trade_header) (final_df plain_cells (col trade_header) trade1),
              [Success_complete])
   \<and> length (mirrored plain_cells (col trade_header) (final_df plain_cells (col trade_header) trade1)) = 1
   \<and> length (rows (final_df plain_cells (col trade_header)
                (final_df plain_cells (col trade_header) trade1))) = 3"
proof -
  let ?out = "final_df plain_cells (col trade_header) trade1"
  have m: "missing (columns trade1) = []" by (simp add: trade1_frame trade_header_missing)
  have a: "length (rows ?out) = 2"
    using length_rows_final[of plain_cells "col trade_header" trade1]
    by (simp add: trade1_frame trade_header_cols trade1_non_inr)
  have c: "columns ?out = trade_header" by (simp add: trade1_frame)
  have n: "length (df_non_inr plain_cells ''Market'' ?out) = 1"
    using second_pass_count[OF m, of plain_cells]
    by (simp add: trade1_frame trade_header_cols trade1_non_inr)
  then have ne: "df_non_inr plain_cells ''Market'' ?out \<noteq> []" by auto
  have b: "app plain_cells ?out = Inr (final_df plain_cells (col trade_header) ?out, [Success_complete])"
    using ne by (simp add: app_proceeds trade1_frame(1) trade_header_missing process_mirrors
        trade_header_cols)
  from n have d: "length (mirrored plain_cells (col trade_header) ?out) = 1"
    by (simp add: length_mirrored trade_header_cols)
  have e: "length (rows (final_df plain_cells (col trade_header) ?out)) = 3"
    using length_rows_final[of plain_cells "col trade_header" ?out] a n
    by (simp add: trade_header_cols)
  show ?thesis by (intro conjI) (fact trade1_app a b d e)+
qed

text \<open>
  C10, as the code has it. The market symbol of every mirrored row is a quote followed by
  INR, so the application classifies every mirrored row as INR. The frame handed out has
  the columns of the sheet, and the rows of it that a second run would mirror are, up to
  their date column, the non-INR rows of the sheet: a second run mirrors those again, as
  many rows as the first, and never a mirrored row.
\<close>

theorem mirrored_rows_are_inr:
  assumes "app lib df = Inr (out, msgs)"
  shows "(\<forall>r\<in>set (mirrored lib (col (columns df)) df).
            is_inr lib (the (col (columns df) Market)) r
            \<and> (\<exists>q. cell_at r (the (col (columns df) Market)) = Text (q @ ''INR'')))
     \<and> columns out = columns df
     \<and> mset (map (\<lambda>r. r(the (col (columns df) Date) := None))
              (df_non_inr lib (the (col (columns df) Market)) out))
         = mset (map (\<lambda>r. (reindex (columns df) r)(the (col (columns df) Date) := None))
              (df_non_inr lib (the (col (columns df) Market)) df))
     \<and> length (mirrored lib (col (columns out)) out) = length (mirrored lib (col (columns df)) df)"
proof -
  let ?cs = "columns df"
  from assms have ok: "missing ?cs = []"
    by (simp add: app_Inr)
  from assms have out: "(df_non_inr lib (the (col ?cs Market)) df = [] \<and> out = df)
      \<or> out = final_df lib (col ?cs) df"
    by (cases rule: app_Inr_cases) simp_all
  have a: "\<forall>r\<in>set (mirrored lib (col ?cs) df).
            is_inr lib (the (col ?cs Market)) r
            \<and> (\<exists>q. cell_at r (the (col ?cs Market)) = Text (q @ ''INR''))"
  proof
    fix r assume "r \<in> set (mirrored lib (col ?cs) df)"
    from mirrored_all_inr[OF ok this] obtain q
      where q: "cell_at r (the (col ?cs Market)) = Text (q @ ''INR'')" by blast
    from is_inr_text[OF q] q
    show "is_inr lib (the (col ?cs Market)) r
            \<and> (\<exists>q. cell_at r (the (col ?cs Market)) = Text (q @ ''INR''))"
      by blast
  qed
  have b: "columns out = ?cs" using out by auto
  have c: "mset (map (\<lambda>r. r(the (col ?cs Date) := None))
              (df_non_inr lib (the (col ?cs Market)) out))
         = mset (map (\<lambda>r. (reindex ?cs r)(the (col ?cs Date) := None))
              (df_non_inr lib (the (col ?cs Market)) df))"
    using out second_pass_rows[OF ok, of lib] by auto
  have d: "length (mirrored lib (col (columns out)) out) = length (mirrored lib (col ?cs) df)"
    using out second_pass_count[OF ok, of lib] by (auto simp: length_mirrored)
  show ?thesis by (intro conjI) (fact a b c d)+
qed

theorem mirrored_rows_are_inr_witness:
  "app plain_cells trade1
     = Inr (final_df plain_cells (col trade_header) trade1, [Success_complete])
   \<and> cell_at (mirrored plain_cells (col (columns trade1)) trade1 ! 0) ''Market'' = Text ''USDTINR''
   \<and> is_inr plain_cells (the (col (columns trade1) Market))
        (mirrored plain_cells (col (columns trade1)) trade1 ! 0)
   \<and> length (mirrored plain_cells (col (columns (final_df plain_cells (col trade_header) trade1)))
        (final_df plain_cells (col trade_header) trade1)) = 1"
proof -
  note a = trade1_app
  note t = mirrored_rows_are_inr[OF a]
  have cs: "columns trade1 = trade_header" by (rule trade1_frame(1))
  have mem: "mirrored plain_cells (col (columns trade1)) trade1 ! 0
      \<in> set (mirrored plain_cells (col (columns trade1)) trade1)"
    by (simp add: cs trade1_mirrored)
  from t mem have b: "is_inr plain_cells (the (col (columns trade1) Market))
        (mirrored plain_cells (col (columns trade1)) trade1 ! 0)"
    by blast
  have c: "cell_at (mirrored plain_cells (col (columns trade1)) trade1 ! 0) ''Market'' = Text ''USDTINR''"
    by (simp add: cs trade1_mirrored_cells)
  from t have "length (mirrored plain_cells (col (columns (final_df plain_cells (col trade_header) trade1)))
        (final_df plain_cells (col trade_header) trade1))
      = length (mirrored plain_cells (col (columns trade1)) trade1)"
    by blast
  then have d: "length (mirrored plain_cells (col (columns (final_df plain_cells (col trade_header) trade1)))
        (final_df plain_cells (col trade_header) trade1)) = 1"
    by (simp add: cs trade1_mirrored)
  show ?thesis by (intro conjI) (fact a c b d)+
qed

end
